theory Spec2Isabelle
  imports Complex_Main
begin

section \<open>Numbers\<close>

text \<open>
  The program computes with JavaScript numbers.  Finite numbers are modelled as exact
  reals (the rounding error of a single floating-point operation is not part of the
  model); the three non-finite results an operation on finite numbers can produce are
  kept as values of their own, so that a division by zero is visible in the model and is
  not HOL's \<open>a / 0 = 0\<close>.  Zero carries no sign: a zero divisor is read as \<open>+0\<close>.
\<close>

datatype jsnum = NaN | NInf | Fin real | PInf

text \<open>The comparison operators \<open><\<close> and \<open>>=\<close>: every comparison with \<open>NaN\<close> is false.\<close>

fun js_lt :: "jsnum \<Rightarrow> jsnum \<Rightarrow> bool" where
  "js_lt NaN _ = False"
| "js_lt _ NaN = False"
| "js_lt (Fin a) (Fin b) = (a < b)"
| "js_lt PInf _ = False"
| "js_lt _ NInf = False"
| "js_lt NInf _ = True"
| "js_lt (Fin a) PInf = True"

fun js_ge :: "jsnum \<Rightarrow> jsnum \<Rightarrow> bool" where
  "js_ge NaN _ = False"
| "js_ge _ NaN = False"
| "js_ge a b = (\<not> js_lt a b)"

text \<open>Unary minus, \<open>+\<close>, \<open>*\<close> on numbers, and \<open>/\<close> on two finite numbers.\<close>

fun js_neg :: "jsnum \<Rightarrow> jsnum" where
  "js_neg NaN = NaN"
| "js_neg NInf = PInf"
| "js_neg PInf = NInf"
| "js_neg (Fin a) = Fin (- a)"

fun js_add :: "jsnum \<Rightarrow> jsnum \<Rightarrow> jsnum" where
  "js_add NaN _ = NaN"
| "js_add _ NaN = NaN"
| "js_add (Fin a) (Fin b) = Fin (a + b)"
| "js_add PInf NInf = NaN"
| "js_add NInf PInf = NaN"
| "js_add PInf _ = PInf"
| "js_add NInf _ = NInf"
| "js_add (Fin a) b = b"

fun js_mul :: "jsnum \<Rightarrow> jsnum \<Rightarrow> jsnum" where
  "js_mul NaN _ = NaN"
| "js_mul _ NaN = NaN"
| "js_mul (Fin a) (Fin b) = Fin (a * b)"
| "js_mul (Fin a) b = (if a = 0 then NaN else if 0 < a then b else js_neg b)"
| "js_mul a (Fin b) = (if b = 0 then NaN else if 0 < b then a else js_neg a)"
| "js_mul PInf b = b"
| "js_mul NInf b = js_neg b"

definition js_div :: "real \<Rightarrow> real \<Rightarrow> jsnum" where
  "js_div a b =
     (if b = 0 then (if a = 0 then NaN else if 0 < a then PInf else NInf)
      else Fin (a / b))"

text \<open>
  \<open>Math.round\<close>: the nearest integer, a tie going to the larger one; \<open>NaN\<close> and the
  infinities are returned as they are.
\<close>

definition round_half_up :: "real \<Rightarrow> int" where
  "round_half_up r = \<lfloor>r + 1 / 2\<rfloor>"

fun js_round :: "jsnum \<Rightarrow> jsnum" where
  "js_round (Fin r) = Fin (of_int (round_half_up r))"
| "js_round a = a"

section \<open>3D math library\<close>

text \<open>
  A vector is the object \<open>{x, y, z}\<close>; the fields are named \<open>vx\<close>, \<open>vy\<close>, \<open>vz\<close> here,
  and a function \<open>f\<close> of the object \<open>vec3\<close> or \<open>mat4\<close> is \<open>vec3_f\<close> or \<open>mat4_f\<close>.
  \<open>real vec3\<close> is a vector of finite numbers, \<open>jsnum vec3\<close> one whose components may be
  non-finite (the result of the perspective divide).
\<close>

record 'a vec3 =
  vx :: 'a
  vy :: 'a
  vz :: 'a

definition vec3_create :: "real \<Rightarrow> real \<Rightarrow> real \<Rightarrow> real vec3" where
  "vec3_create a b c = \<lparr>vx = a, vy = b, vz = c\<rparr>"

definition vec3_add :: "real vec3 \<Rightarrow> real vec3 \<Rightarrow> real vec3" where
  "vec3_add a b = \<lparr>vx = vx a + vx b, vy = vy a + vy b, vz = vz a + vz b\<rparr>"

definition vec3_subtract :: "real vec3 \<Rightarrow> real vec3 \<Rightarrow> real vec3" where
  "vec3_subtract a b = \<lparr>vx = vx a - vx b, vy = vy a - vy b, vz = vz a - vz b\<rparr>"

definition vec3_scale :: "real vec3 \<Rightarrow> real \<Rightarrow> real vec3" where
  "vec3_scale a s = \<lparr>vx = vx a * s, vy = vy a * s, vz = vz a * s\<rparr>"

definition vec3_dot :: "real vec3 \<Rightarrow> real vec3 \<Rightarrow> real" where
  "vec3_dot a b = vx a * vx b + vy a * vy b + vz a * vz b"

definition vec3_cross :: "real vec3 \<Rightarrow> real vec3 \<Rightarrow> real vec3" where
  "vec3_cross a b = \<lparr>vx = vy a * vz b - vz a * vy b,
               vy = vz a * vx b - vx a * vz b,
               vz = vx a * vy b - vy a * vx b\<rparr>"

text \<open>The local \<open>len\<close> of \<open>normalize\<close>.\<close>

definition vlen :: "real vec3 \<Rightarrow> real" where
  "vlen a = sqrt (vx a * vx a + vy a * vy a + vz a * vz a)"

text \<open>
  \<open>normalize\<close> divides only in the branch guarded by \<open>len > 0\<close>, where the quotient of
  two finite numbers is the real quotient.
\<close>

definition vec3_normalize :: "real vec3 \<Rightarrow> real vec3" where
  "vec3_normalize a =
     (let len = vlen a
      in if 0 < len then \<lparr>vx = vx a / len, vy = vy a / len, vz = vz a / len\<rparr> else a)"

text \<open>
  A matrix is an array of 16 numbers; every matrix of the program is built by one of the
  constructors below, so every read \<open>m[i]\<close> with \<open>i < 16\<close> finds an entry.
\<close>

type_synonym mat4 = "real list"

definition mat4_create :: mat4 where
  "mat4_create = [1, 0, 0, 0,
                  0, 1, 0, 0,
                  0, 0, 1, 0,
                  0, 0, 0, 1]"

text \<open>The two nested loops of \<open>multiply\<close>, each assigning one entry of \<open>result\<close>.\<close>

definition mat4_multiply :: "mat4 \<Rightarrow> mat4 \<Rightarrow> mat4" where
  "mat4_multiply a b =
     fold (\<lambda>i result.
        fold (\<lambda>j result.
           result[i * 4 + j :=
             a ! (i * 4 + 0) * b ! (0 * 4 + j) +
             a ! (i * 4 + 1) * b ! (1 * 4 + j) +
             a ! (i * 4 + 2) * b ! (2 * 4 + j) +
             a ! (i * 4 + 3) * b ! (3 * 4 + j)])
          [0..<4] result)
       [0..<4] mat4_create"

definition mat4_fromTranslation :: "real vec3 \<Rightarrow> mat4" where
  "mat4_fromTranslation v = [1, 0, 0, 0,
                             0, 1, 0, 0,
                             0, 0, 1, 0,
                             vx v, vy v, vz v, 1]"

definition mat4_fromXRotation :: "real \<Rightarrow> mat4" where
  "mat4_fromXRotation angle =
     (let c = cos angle; s = sin angle
      in [1, 0, 0, 0,
          0, c, - s, 0,
          0, s, c, 0,
          0, 0, 0, 1])"

definition mat4_fromYRotation :: "real \<Rightarrow> mat4" where
  "mat4_fromYRotation angle =
     (let c = cos angle; s = sin angle
      in [c, 0, s, 0,
          0, 1, 0, 0,
          - s, 0, c, 0,
          0, 0, 0, 1])"

definition mat4_fromZRotation :: "real \<Rightarrow> mat4" where
  "mat4_fromZRotation angle =
     (let c = cos angle; s = sin angle
      in [c, - s, 0, 0,
          s, c, 0, 0,
          0, 0, 1, 0,
          0, 0, 0, 1])"

text \<open>
  \<open>transformPoint\<close> divides by \<open>w\<close> without a guard: with \<open>w = 0\<close> the components are
  \<open>NaN\<close> or infinite.
\<close>

definition mat4_transformPoint :: "mat4 \<Rightarrow> real vec3 \<Rightarrow> jsnum vec3" where
  "mat4_transformPoint m p =
     (let w = m ! 3 * vx p + m ! 7 * vy p + m ! 11 * vz p + m ! 15
      in \<lparr>vx = js_div (m ! 0 * vx p + m ! 4 * vy p + m ! 8 * vz p + m ! 12) w,
          vy = js_div (m ! 1 * vx p + m ! 5 * vy p + m ! 9 * vz p + m ! 13) w,
          vz = js_div (m ! 2 * vx p + m ! 6 * vy p + m ! 10 * vz p + m ! 14) w\<rparr>)"

section \<open>3D engine core\<close>

record camera =
  camera_position :: "real vec3"
  camera_target :: "real vec3"
  camera_up :: "real vec3"

definition camera :: camera where
  "camera = \<lparr>camera_position = vec3_create 0 0 (- 5),
             camera_target = vec3_create 0 0 0,
             camera_up = vec3_create 0 1 0\<rparr>"

record vertex =
  pos :: "real vec3"
  normal :: "real vec3"

definition cubeMesh_vertices :: "vertex list" where
  "cubeMesh_vertices =
     [\<lparr>pos = vec3_create (- 1) (- 1) 1, normal = vec3_create 0 0 1\<rparr>,
      \<lparr>pos = vec3_create 1 (- 1) 1, normal = vec3_create 0 0 1\<rparr>,
      \<lparr>pos = vec3_create 1 1 1, normal = vec3_create 0 0 1\<rparr>,
      \<lparr>pos = vec3_create (- 1) 1 1, normal = vec3_create 0 0 1\<rparr>,
      \<lparr>pos = vec3_create (- 1) (- 1) (- 1), normal = vec3_create 0 0 (- 1)\<rparr>,
      \<lparr>pos = vec3_create (- 1) 1 (- 1), normal = vec3_create 0 0 (- 1)\<rparr>,
      \<lparr>pos = vec3_create 1 1 (- 1), normal = vec3_create 0 0 (- 1)\<rparr>,
      \<lparr>pos = vec3_create 1 (- 1) (- 1), normal = vec3_create 0 0 (- 1)\<rparr>]"

definition cubeMesh_indices :: "nat list" where
  "cubeMesh_indices =
     [0, 1, 2, 0, 2, 3,
      4, 5, 6, 4, 6, 7,
      3, 2, 6, 3, 6, 5,
      0, 1, 7, 0, 7, 4,
      1, 7, 6, 1, 6, 2,
      0, 4, 5, 0, 5, 3]"

definition createViewMatrix :: "camera \<Rightarrow> mat4" where
  "createViewMatrix cam =
     (let zAxis = vec3_normalize (vec3_subtract (camera_position cam) (camera_target cam));
          xAxis = vec3_normalize (vec3_cross (camera_up cam) zAxis);
          yAxis = vec3_cross zAxis xAxis
      in [vx xAxis, vx yAxis, vx zAxis, 0,
          vy xAxis, vy yAxis, vy zAxis, 0,
          vz xAxis, vz yAxis, vz zAxis, 0,
          - vec3_dot xAxis (camera_position cam), - vec3_dot yAxis (camera_position cam),
            - vec3_dot zAxis (camera_position cam), 1])"

text \<open>
  \<open>createProjectionMatrix\<close> divides three times without a guard.  The result is \<open>None\<close>
  when one of the divisors is zero or the tangent is not defined, where the entries are
  not all finite; otherwise the real quotients are the entries.
\<close>

definition createProjectionMatrix :: "real \<Rightarrow> real \<Rightarrow> real \<Rightarrow> real \<Rightarrow> mat4 option" where
  "createProjectionMatrix fov aspect near far =
     (if cos (fov / 2) = 0 \<or> tan (fov / 2) = 0 \<or> aspect = 0 \<or> near - far = 0 then None
      else
        (let f = 1 / tan (fov / 2); rangeInv = 1 / (near - far)
         in Some [f / aspect, 0, 0, 0,
                  0, f, 0, 0,
                  0, 0, (near + far) * rangeInv, - 1,
                  0, 0, near * far * rangeInv * 2, 0]))"

section \<open>Rasterizer: \<open>drawPixel\<close>\<close>

text \<open>
  \<open>color.toRgb()\<close> of the gradient library is taken as given: a colour is its three
  channels \<open>r\<close>, \<open>g\<close>, \<open>b\<close>.  A frame-buffer cell is the text of the template literal:
  the escape sequence with the rounded channels in decimal, then the glyph.
\<close>

record rgb =
  rgb_r :: real
  rgb_g :: real
  rgb_b :: real

function showNat :: "nat \<Rightarrow> string" where
  "showNat n =
     (if n < 10 then [''0123456789'' ! n]
      else showNat (n div 10) @ [''0123456789'' ! (n mod 10)])"
  by pat_completeness auto
termination
  by (relation "measure id") auto

definition showInt :: "int \<Rightarrow> string" where
  "showInt i = (if i < 0 then CHR ''-'' # showNat (nat (- i)) else showNat (nat i))"

definition cellText :: "rgb \<Rightarrow> string \<Rightarrow> string" where
  "cellText c glyph =
     CHR 0x1B # ''[38;2;'' @ showInt (round_half_up (rgb_r c)) @ '';'' @
     showInt (round_half_up (rgb_g c)) @ '';'' @ showInt (round_half_up (rgb_b c)) @ ''m'' @ glyph"

text \<open>
  The two buffers are JavaScript arrays: a cell that was never written reads as
  \<open>undefined\<close>.  They are maps from the index to the cell.
\<close>

record buffers =
  frameBuffer :: "nat \<rightharpoonup> string"
  zBuffer :: "nat \<rightharpoonup> jsnum"

text \<open>
  \<open>zBuffer[index]\<close> for a number \<open>index\<close>: only a non-negative integer is an array
  index; any other key, and any cell never written, reads as \<open>undefined\<close>, which the
  comparison \<open>z < undefined\<close> converts to \<open>NaN\<close>.
\<close>

fun array_key :: "jsnum \<Rightarrow> nat option" where
  "array_key (Fin a) = (if 0 \<le> a \<and> a = of_int \<lfloor>a\<rfloor> then Some (nat \<lfloor>a\<rfloor>) else None)"
| "array_key _ = None"

definition js_read :: "(nat \<rightharpoonup> jsnum) \<Rightarrow> jsnum \<Rightarrow> jsnum" where
  "js_read arr index =
     (case array_key index of
        None \<Rightarrow> NaN
      | Some k \<Rightarrow> (case arr k of None \<Rightarrow> NaN | Some d \<Rightarrow> d))"

text \<open>
  \<open>drawPixel\<close>, with the constants \<open>WIDTH\<close> and \<open>HEIGHT\<close> as the parameters \<open>W\<close> and \<open>H\<close>.
  The write is reached only when the read found a cell, so the key is an array index
  there; the other branch of the inner \<open>case\<close> cannot be taken.
\<close>

definition drawPixel ::
  "nat \<Rightarrow> nat \<Rightarrow> jsnum \<Rightarrow> jsnum \<Rightarrow> jsnum \<Rightarrow> string \<Rightarrow> rgb \<Rightarrow> buffers \<Rightarrow> buffers" where
  "drawPixel W H x0 y0 z glyph color bufs =
     (let x = js_round x0; y = js_round y0
      in if js_lt x (Fin 0) \<or> js_ge x (Fin (real W)) \<or> js_lt y (Fin 0) \<or> js_ge y (Fin (real H))
         then bufs
         else
           (let index = js_add (js_mul y (Fin (real W))) x
            in if js_lt z (js_read (zBuffer bufs) index)
               then (case array_key index of
                       None \<Rightarrow> bufs
                     | Some k \<Rightarrow>
                         bufs\<lparr>zBuffer := (zBuffer bufs)(k \<mapsto> z),
                              frameBuffer := (frameBuffer bufs)(k \<mapsto> cellText color glyph)\<rparr>)
               else bufs))"

text \<open>
  The buffers \<open>renderFrame\<close> creates: \<open>Array(WIDTH * HEIGHT).fill(' ')\<close> and
  \<open>Array(WIDTH * HEIGHT).fill(Infinity)\<close>.
\<close>

definition freshBuffers :: "nat \<Rightarrow> nat \<Rightarrow> buffers" where
  "freshBuffers W H =
     \<lparr>frameBuffer = (\<lambda>i. if i < W * H then Some '' '' else None),
      zBuffer = (\<lambda>i. if i < W * H then Some PInf else None)\<rparr>"

text \<open>One \<open>drawPixel\<close> call, and a sequence of calls run in order on the same buffers.\<close>

record pixelCall =
  px :: jsnum
  py :: jsnum
  pz :: jsnum
  pglyph :: string
  pcolor :: rgb

definition runCall :: "nat \<Rightarrow> nat \<Rightarrow> pixelCall \<Rightarrow> buffers \<Rightarrow> buffers" where
  "runCall W H c = drawPixel W H (px c) (py c) (pz c) (pglyph c) (pcolor c)"

definition runCalls :: "nat \<Rightarrow> nat \<Rightarrow> pixelCall list \<Rightarrow> buffers \<Rightarrow> buffers" where
  "runCalls W H cs bufs = fold (runCall W H) cs bufs"

section \<open>Rasterizer: \<open>drawLine\<close>\<close>

text \<open>
  The coordinates \<open>Math.round\<close> returns and the counters of the walk are integers held in
  doubles, and the loop leaves by comparing them with \<open>===\<close>.  A double holds every
  integer up to \<open>2^53\<close> in magnitude and only some of the larger ones, so the exact
  result of an integer operation is rounded to the nearest integer with 53 significant
  bits, a tie going to the even significand: \<open>dbl\<close>.  (Overflow to infinity, beyond
  \<open>2^1024\<close>, is not modelled.)
\<close>

fun bitlen :: "nat \<Rightarrow> nat" where
  "bitlen n = (if n = 0 then 0 else Suc (bitlen (n div 2)))"

declare bitlen.simps [simp del]

definition dbl :: "int \<Rightarrow> int" where
  "dbl n =
     (let m = nat \<bar>n\<bar>; l = bitlen m
      in if l \<le> 53 then n
         else
           (let q = 2 ^ (l - 53); s = m div q; rest = m mod q;
                s' = (if q < 2 * rest \<or> (2 * rest = q \<and> odd s) then s + 1 else s)
            in sgn n * int (s' * q)))"

text \<open>
  The endpoints are vectors of finite numbers (doubles, so that \<open>Math.round\<close> of a
  coordinate is exact).  Lines 202 to 204: the parameter \<open>t\<close>, the
  depth \<open>z\<close> and the \<open>drawPixel\<close> call at the stepped point \<open>(x0, y0)\<close>.  The quotient of
  the two square roots is \<open>NaN\<close> or infinite when the divisor is zero.
\<close>

definition linePixel ::
  "real vec3 \<Rightarrow> real vec3 \<Rightarrow> string \<Rightarrow> rgb \<Rightarrow> int \<Rightarrow> int \<Rightarrow> int \<Rightarrow> int \<Rightarrow> pixelCall" where
  "linePixel p1 p2 glyph color x1 y1 x0 y0 =
     (let t = js_div (sqrt ((real_of_int x0 - vx p1)\<^sup>2 + (real_of_int y0 - vy p1)\<^sup>2))
                     (sqrt ((real_of_int x1 - vx p1)\<^sup>2 + (real_of_int y1 - vy p1)\<^sup>2));
          z = js_add (Fin (vz p1)) (js_mul (Fin (vz p2 - vz p1)) t)
      in \<lparr>px = Fin (real_of_int x0), py = Fin (real_of_int y0), pz = z,
          pglyph = glyph, pcolor = color\<rparr>)"

text \<open>Lines 207 to 209: one step of the walk on the state \<open>(x0, y0, err)\<close>.\<close>

definition lineStep :: "int \<Rightarrow> int \<Rightarrow> int \<Rightarrow> int \<Rightarrow> int \<times> int \<times> int \<Rightarrow> int \<times> int \<times> int" where
  "lineStep dx dy sx sy s =
     (case s of (x0, y0, err) \<Rightarrow>
        (let e2 = dbl (2 * err);
             err1 = (if - dy < e2 then dbl (err - dy) else err);
             x0' = (if - dy < e2 then dbl (x0 + sx) else x0);
             err2 = (if e2 < dx then dbl (err1 + dx) else err1);
             y0' = (if e2 < dx then dbl (y0 + sy) else y0)
         in (x0', y0', err2)))"

text \<open>
  The loop \<open>while (true)\<close>.  \<open>drawPixel\<close> is the only writer of the buffers, so the
  effect of the loop is the sequence of its \<open>drawPixel\<close> calls, collected in \<open>calls\<close>;
  the value is \<open>None\<close> when the loop never reaches its \<open>break\<close>.
\<close>

partial_function (option) lineLoop ::
  "real vec3 \<Rightarrow> real vec3 \<Rightarrow> string \<Rightarrow> rgb \<Rightarrow> int \<Rightarrow> int \<Rightarrow> int \<Rightarrow> int \<Rightarrow> int \<Rightarrow> int \<Rightarrow>
   int \<times> int \<times> int \<Rightarrow> pixelCall list \<Rightarrow> pixelCall list option" where
  "lineLoop p1 p2 glyph color x1 y1 dx dy sx sy s calls =
     (let calls' = calls @ [linePixel p1 p2 glyph color x1 y1 (fst s) (fst (snd s))]
      in if fst s = x1 \<and> fst (snd s) = y1 then Some calls'
         else lineLoop p1 p2 glyph color x1 y1 dx dy sx sy (lineStep dx dy sx sy s) calls')"

definition drawLine_calls :: "real vec3 \<Rightarrow> real vec3 \<Rightarrow> string \<Rightarrow> rgb \<Rightarrow> pixelCall list option" where
  "drawLine_calls p1 p2 glyph color =
     (let x0 = round_half_up (vx p1);
          y0 = round_half_up (vy p1);
          x1 = round_half_up (vx p2);
          y1 = round_half_up (vy p2);
          dx = \<bar>dbl (x1 - x0)\<bar>;
          dy = \<bar>dbl (y1 - y0)\<bar>;
          sx = (if x0 < x1 then 1 else - 1);
          sy = (if y0 < y1 then 1 else - 1);
          err = dbl (dx - dy)
      in lineLoop p1 p2 glyph color x1 y1 dx dy sx sy (x0, y0, err) [])"

definition drawLine ::
  "nat \<Rightarrow> nat \<Rightarrow> real vec3 \<Rightarrow> real vec3 \<Rightarrow> string \<Rightarrow> rgb \<Rightarrow> buffers \<Rightarrow> buffers option" where
  "drawLine W H p1 p2 glyph color bufs =
     map_option (\<lambda>calls. runCalls W H calls bufs) (drawLine_calls p1 p2 glyph color)"

section \<open>Configuration\<close>



text \<open>\<open>process.stdout.columns || 80\<close> and \<open>process.stdout.rows || 24\<close>.\<close>

definition WIDTH :: "nat option \<Rightarrow> nat" where
  "WIDTH columns = (case columns of None \<Rightarrow> 80 | Some n \<Rightarrow> if n = 0 then 80 else n)"

definition HEIGHT :: "nat option \<Rightarrow> nat" where
  "HEIGHT rows = (case rows of None \<Rightarrow> 24 | Some n \<Rightarrow> if n = 0 then 24 else n)"

section \<open>Frame orchestrator\<close>

record cube =
  cube_position :: "real vec3"
  cube_rotation :: "real vec3"
  cube_scale :: "real vec3"

text \<open>Lines 250 to 257 of \<open>renderFrame\<close>.\<close>

definition advanceRotation :: "cube \<Rightarrow> cube" where
  "advanceRotation c =
     c\<lparr>cube_rotation := (cube_rotation c)\<lparr>vx := vx (cube_rotation c) + 1 / 100,
                                            vy := vy (cube_rotation c) + 1 / 100\<rparr>\<rparr>"

definition worldMatrix :: "cube \<Rightarrow> mat4" where
  "worldMatrix c =
     mat4_multiply (mat4_fromXRotation (vx (cube_rotation c)))
                   (mat4_fromYRotation (vy (cube_rotation c)))"

definition cubeTransform :: "mat4 \<Rightarrow> mat4 \<Rightarrow> cube \<Rightarrow> mat4" where
  "cubeTransform projectionMatrix viewMatrix c =
     mat4_multiply projectionMatrix (mat4_multiply viewMatrix (worldMatrix c))"

text \<open>Lines 259 to 264: the perspective divide and the mapping to screen cells.\<close>

definition toScreen :: "nat \<Rightarrow> nat \<Rightarrow> jsnum vec3 \<Rightarrow> jsnum vec3" where
  "toScreen W H tv =
     tv\<lparr>vx := js_mul (js_add (js_mul (vx tv) (Fin (1 / 2))) (Fin (1 / 2))) (Fin (real W)),
        vy := js_mul (js_add (js_mul (js_neg (vy tv)) (Fin (1 / 2))) (Fin (1 / 2))) (Fin (real H))\<rparr>"

definition transformedVertices :: "nat \<Rightarrow> nat \<Rightarrow> mat4 \<Rightarrow> jsnum vec3 list" where
  "transformedVertices W H transform =
     map (\<lambda>v. toScreen W H (mat4_transformPoint transform (pos v))) cubeMesh_vertices"

text \<open>Lines 267 to 272: the light direction and the intensity of the triangle at \<open>i\<close>.\<close>

definition lightDir :: "real vec3" where
  "lightDir = vec3_normalize (vec3_create 1 1 (- 1))"

definition faceIntensity :: "real vec3 \<Rightarrow> real vec3 \<Rightarrow> real vec3 \<Rightarrow> real" where
  "faceIntensity p1 p2 p3 =
     vec3_dot (vec3_normalize (vec3_cross (vec3_subtract p2 p1) (vec3_subtract p3 p1))) lightDir"

definition triangleIntensity :: "nat \<Rightarrow> real" where
  "triangleIntensity i =
     (let v1 = cubeMesh_vertices ! (cubeMesh_indices ! i);
          v2 = cubeMesh_vertices ! (cubeMesh_indices ! (i + 1));
          v3 = cubeMesh_vertices ! (cubeMesh_indices ! (i + 2))
      in faceIntensity (pos v1) (pos v2) (pos v3))"

text \<open>
  Line 279: the glyph.  \<open>ASCII_RAMP.length - 1\<close> is \<open>-1\<close> for an empty ramp, and an index
  outside the string reads as \<open>undefined\<close>, which the template literal of \<open>drawPixel\<close>
  prints as that word.
\<close>

definition glyphIndex :: "string \<Rightarrow> real \<Rightarrow> int" where
  "glyphIndex ramp intensity = \<lfloor>intensity * (real (length ramp) - 1)\<rfloor>"

definition glyphAt :: "string \<Rightarrow> real \<Rightarrow> string" where
  "glyphAt ramp intensity =
     (let k = glyphIndex ramp intensity
      in if 0 \<le> k \<and> k < int (length ramp) then [ramp ! nat k] else ''undefined'')"

text \<open>
  The screen vertices passed to \<open>drawLine\<close> are finite whenever \<open>w\<close> was not zero; at a
  vertex with \<open>w = 0\<close> the model of \<open>drawLine\<close> does not apply and the result is \<open>None\<close>.
\<close>

definition finiteVec :: "jsnum vec3 \<Rightarrow> real vec3 option" where
  "finiteVec v =
     (case (vx v, vy v, vz v) of
        (Fin a, Fin b, Fin c) \<Rightarrow> Some \<lparr>vx = a, vy = b, vz = c\<rparr>
      | _ \<Rightarrow> None)"

text \<open>
  Lines 274 to 285: the \<open>drawPixel\<close> calls of the triangle at \<open>i\<close>, through its three
  \<open>drawLine\<close> calls; \<open>gradient\<close> is \<open>gradient.rgbAt\<close> of the gradient library.
\<close>

definition triangleCalls ::
  "string \<Rightarrow> (real \<Rightarrow> rgb) \<Rightarrow> jsnum vec3 list \<Rightarrow> nat \<Rightarrow> pixelCall list option" where
  "triangleCalls ramp gradient tvs i =
     (let intensity = triangleIntensity i
      in if 0 < intensity
         then
           (case (finiteVec (tvs ! (cubeMesh_indices ! i)),
                  finiteVec (tvs ! (cubeMesh_indices ! (i + 1))),
                  finiteVec (tvs ! (cubeMesh_indices ! (i + 2)))) of
              (Some tv1, Some tv2, Some tv3) \<Rightarrow>
                (let glyph = glyphAt ramp intensity; color = gradient intensity
                 in Option.bind (drawLine_calls tv1 tv2 glyph color) (\<lambda>l1.
                    Option.bind (drawLine_calls tv2 tv3 glyph color) (\<lambda>l2.
                    Option.bind (drawLine_calls tv3 tv1 glyph color) (\<lambda>l3.
                    Some (l1 @ l2 @ l3)))))
            | _ \<Rightarrow> None)
         else Some [])"

definition renderTriangle ::
  "nat \<Rightarrow> nat \<Rightarrow> string \<Rightarrow> (real \<Rightarrow> rgb) \<Rightarrow> jsnum vec3 list \<Rightarrow> nat \<Rightarrow> buffers \<Rightarrow> buffers option" where
  "renderTriangle W H ramp gradient tvs i bufs =
     map_option (\<lambda>calls. runCalls W H calls bufs) (triangleCalls ramp gradient tvs i)"

text \<open>The loop over the triangles of one cube and the loop over the cubes.\<close>

fun concatCalls :: "pixelCall list option list \<Rightarrow> pixelCall list option" where
  "concatCalls [] = Some []"
| "concatCalls (c # cs) =
     Option.bind c (\<lambda>l. Option.bind (concatCalls cs) (\<lambda>ls. Some (l @ ls)))"

definition cubeCalls ::
  "nat \<Rightarrow> nat \<Rightarrow> string \<Rightarrow> (real \<Rightarrow> rgb) \<Rightarrow> mat4 \<Rightarrow> mat4 \<Rightarrow> cube \<Rightarrow> pixelCall list option" where
  "cubeCalls W H ramp gradient projectionMatrix viewMatrix c =
     (let transform = cubeTransform projectionMatrix viewMatrix (advanceRotation c);
          tvs = transformedVertices W H transform
      in concatCalls (map (\<lambda>n. triangleCalls ramp gradient tvs (3 * n))
                          [0..<length cubeMesh_indices div 3]))"

definition frameCalls :: "nat \<Rightarrow> nat \<Rightarrow> string \<Rightarrow> (real \<Rightarrow> rgb) \<Rightarrow> cube list \<Rightarrow> pixelCall list option" where
  "frameCalls W H ramp gradient cubes =
     (case createProjectionMatrix (pi / 2) (real W / real H) (1 / 10) 100 of
        None \<Rightarrow> None
      | Some projectionMatrix \<Rightarrow>
          concatCalls (map (cubeCalls W H ramp gradient projectionMatrix (createViewMatrix camera))
                           cubes))"

text \<open>
  \<open>renderFrame\<close> on the globals \<open>time\<close> and \<open>cubes\<close>: the time and the rotations
  advanced, and the two buffers after every call of the frame, starting from fresh
  ones.  (Writing the cells to the terminal is not part of the model.)
\<close>

definition renderFrame ::
  "nat \<Rightarrow> nat \<Rightarrow> string \<Rightarrow> (real \<Rightarrow> rgb) \<Rightarrow> real \<Rightarrow> cube list \<Rightarrow>
   real \<times> cube list \<times> buffers option" where
  "renderFrame W H ramp gradient time cubes =
     (time + 1 / 100,
      map advanceRotation cubes,
      map_option (\<lambda>calls. runCalls W H calls (freshBuffers W H))
                 (frameCalls W H ramp gradient cubes))"

section \<open>Notions used to state the properties\<close>

text \<open>
  The cell a call addresses: the index \<open>y * WIDTH + x\<close> of the rounded coordinates when
  both are finite and inside the grid, no cell otherwise.
\<close>

definition cellIndex :: "nat \<Rightarrow> nat \<Rightarrow> jsnum \<Rightarrow> jsnum \<Rightarrow> nat option" where
  "cellIndex W H x0 y0 =
     (case (x0, y0) of
        (Fin a, Fin c) \<Rightarrow>
          (let i = round_half_up a; j = round_half_up c
           in if 0 \<le> i \<and> i < int W \<and> 0 \<le> j \<and> j < int H then Some (nat j * W + nat i)
              else None)
      | _ \<Rightarrow> None)"

text \<open>The depth a cell holds, as the comparison of \<open>drawPixel\<close> reads it.\<close>

definition storedDepth :: "buffers \<Rightarrow> nat \<Rightarrow> jsnum" where
  "storedDepth bufs k = (case zBuffer bufs k of None \<Rightarrow> NaN | Some d \<Rightarrow> d)"

text \<open>A vector of finite numbers among the vectors of numbers.\<close>

definition finVec :: "real vec3 \<Rightarrow> jsnum vec3" where
  "finVec v = \<lparr>vx = Fin (vx v), vy = Fin (vy v), vz = Fin (vz v)\<rparr>"

text \<open>
  The walk of \<open>drawLine\<close>: the remaining grid distance of a stepped point to the rounded
  end point \<open>(x1, y1)\<close>; the invariant of the loop state, with \<open>rx\<close> and \<open>ry\<close> the steps
  still to take on each axis; and the relation between a stepped point and the next one
  (each coordinate stays or advances by its sign, the point has moved away from the
  rounded start \<open>(xs, ys)\<close>, and the remaining distance decreases).
\<close>

definition gridDist :: "int \<Rightarrow> int \<Rightarrow> int \<times> int \<Rightarrow> int" where
  "gridDist x1 y1 p = \<bar>x1 - fst p\<bar> + \<bar>y1 - snd p\<bar>"

definition lineInv :: "int \<Rightarrow> int \<Rightarrow> int \<Rightarrow> int \<Rightarrow> int \<times> int \<times> int \<Rightarrow> bool" where
  "lineInv xs ys x1 y1 s =
     (let dx = \<bar>x1 - xs\<bar>; dy = \<bar>y1 - ys\<bar>;
          sx = (if xs < x1 then 1 else - 1); sy = (if ys < y1 then 1 else - 1);
          rx = sx * (x1 - fst s); ry = sy * (y1 - fst (snd s)); err = snd (snd s)
      in 0 \<le> rx \<and> rx \<le> dx \<and> 0 \<le> ry \<and> ry \<le> dy \<and>
         err = dx - dy + rx * dy - ry * dx \<and> \<bar>err\<bar> \<le> 2 * (dx + dy))"

definition walkRel :: "int \<Rightarrow> int \<Rightarrow> int \<Rightarrow> int \<Rightarrow> int \<times> int \<Rightarrow> int \<times> int \<Rightarrow> bool" where
  "walkRel xs ys x1 y1 a b =
     (let sx = (if xs < x1 then 1 else - 1); sy = (if ys < y1 then 1 else - 1)
      in (fst b = fst a \<or> fst b = fst a + sx) \<and> (snd b = snd a \<or> snd b = snd a + sy) \<and>
         0 \<le> sx * (fst a - xs) \<and> 0 \<le> sy * (snd a - ys) \<and>
         gridDist x1 y1 b < gridDist x1 y1 a)"


section \<open>Properties of the math library\<close>





section \<open>Properties of \<open>drawPixel\<close>\<close>

lemma js_lt_NaN_right [simp]: "js_lt a NaN = False"
  by (cases a) simp_all

lemma array_key_of_int: "array_key (Fin (real_of_int n)) = (if 0 \<le> n then Some (nat n) else None)"
  by simp

lemma array_key_of_nat:
  assumes "0 \<le> i" and "0 \<le> j"
  shows "array_key (Fin (real_of_int j * real W + real_of_int i)) = Some (nat j * W + nat i)"
proof -
  have eq: "real_of_int j * real W + real_of_int i = real_of_int (j * int W + i)"
    by simp
  have nn: "0 \<le> j * int W + i" using assms by simp
  have "nat (j * int W + i) = nat j * W + nat i"
    using assms by (simp add: nat_add_distrib nat_mult_distrib)
  then show ?thesis
    by (simp only: eq array_key_of_int nn if_True)
qed

lemma drawPixel_finite:
  "drawPixel W H (Fin a) (Fin c) z glyph color bufs =
     (let i = round_half_up a; j = round_half_up c
      in if 0 \<le> i \<and> i < int W \<and> 0 \<le> j \<and> j < int H \<and> js_lt z (storedDepth bufs (nat j * W + nat i))
         then bufs\<lparr>zBuffer := (zBuffer bufs)(nat j * W + nat i \<mapsto> z),
                   frameBuffer := (frameBuffer bufs)(nat j * W + nat i \<mapsto> cellText color glyph)\<rparr>
         else bufs)"
proof (cases "0 \<le> round_half_up a \<and> round_half_up a < int W \<and>
              0 \<le> round_half_up c \<and> round_half_up c < int H")
  case False
  then show ?thesis by (auto simp: drawPixel_def Let_def)
next
  case True
  then have k: "array_key (Fin (real_of_int (round_half_up c) * real W + real_of_int (round_half_up a)))
      = Some (nat (round_half_up c) * W + nat (round_half_up a))"
    by (intro array_key_of_nat) simp_all
  from True have inb: "\<not> real_of_int (round_half_up a) < 0" "real_of_int (round_half_up a) < real W"
      "\<not> real_of_int (round_half_up c) < 0" "real_of_int (round_half_up c) < real H"
    by simp_all
  show ?thesis
    using True inb
    by (simp add: drawPixel_def Let_def js_read_def storedDepth_def k del: array_key.simps)
qed

lemma drawPixel_nonfinite:
  "(\<forall>a. x0 \<noteq> Fin a) \<or> (\<forall>c. y0 \<noteq> Fin c) \<Longrightarrow> drawPixel W H x0 y0 z glyph color bufs = bufs"
  by (cases x0; cases y0) (simp_all add: drawPixel_def Let_def js_read_def)

lemma drawPixel_cellIndex:
  "drawPixel W H x0 y0 z glyph color bufs =
     (case cellIndex W H x0 y0 of
        None \<Rightarrow> bufs
      | Some k \<Rightarrow>
          if js_lt z (storedDepth bufs k)
          then bufs\<lparr>zBuffer := (zBuffer bufs)(k \<mapsto> z),
                    frameBuffer := (frameBuffer bufs)(k \<mapsto> cellText color glyph)\<rparr>
          else bufs)"
proof (cases "(\<exists>a. x0 = Fin a) \<and> (\<exists>c. y0 = Fin c)")
  case True
  then obtain a c where "x0 = Fin a" "y0 = Fin c" by blast
  then show ?thesis by (simp add: drawPixel_finite cellIndex_def Let_def)
next
  case False
  then have nf: "(\<forall>a. x0 \<noteq> Fin a) \<or> (\<forall>c. y0 \<noteq> Fin c)" by blast
  then have "cellIndex W H x0 y0 = None"
    by (cases x0; cases y0) (simp_all add: cellIndex_def)
  then show ?thesis using drawPixel_nonfinite [OF nf] by simp
qed

lemma js_lt_irrefl [simp]: "\<not> js_lt a a"
  by (cases a) simp_all

lemma js_lt_trans: "js_lt a b \<Longrightarrow> js_lt b c \<Longrightarrow> js_lt a c"
  by (cases a; cases b; cases c) simp_all

lemma js_lt_total: "a \<noteq> NaN \<Longrightarrow> b \<noteq> NaN \<Longrightarrow> js_lt a b \<or> a = b \<or> js_lt b a"
  by (cases a; cases b) auto

lemma js_lt_not_NaN: "js_lt a b \<Longrightarrow> a \<noteq> NaN \<and> b \<noteq> NaN"
  by (cases a; cases b) simp_all

lemma zBuffer_runCall:
  "zBuffer (runCall W H c bufs) k =
     (if cellIndex W H (px c) (py c) = Some k \<and> js_lt (pz c) (storedDepth bufs k)
      then Some (pz c) else zBuffer bufs k)"
  by (simp add: runCall_def drawPixel_cellIndex split: option.splits)

lemma runCalls_Cons: "runCalls W H (c # cs) bufs = runCalls W H cs (runCall W H c bufs)"
  by (simp add: runCalls_def)

lemma zBuffer_runCalls:
  assumes "zBuffer bufs k = Some d0" and "d0 \<noteq> NaN"
  shows "\<exists>d. zBuffer (runCalls W H cs bufs) k = Some d \<and> d \<noteq> NaN \<and>
           (d = d0 \<or> d \<in> set [pz c. c \<leftarrow> cs, cellIndex W H (px c) (py c) = Some k]) \<and>
           (js_lt d d0 \<or> d = d0) \<and>
           (\<forall>h \<in> set [pz c. c \<leftarrow> cs, cellIndex W H (px c) (py c) = Some k].
              h \<noteq> NaN \<longrightarrow> js_lt d h \<or> d = h)"
  using assms
proof (induction cs arbitrary: bufs d0)
  case Nil
  then show ?case by (simp add: runCalls_def)
next
  case (Cons c cs)
  let ?b1 = "runCall W H c bufs"
  let ?hit = "cellIndex W H (px c) (py c) = Some k \<and> js_lt (pz c) d0"
  define d1 where "d1 = (if ?hit then pz c else d0)"
  have sd: "storedDepth bufs k = d0" using Cons.prems by (simp add: storedDepth_def)
  have z1: "zBuffer ?b1 k = Some d1"
    using Cons.prems by (simp add: zBuffer_runCall sd d1_def)
  have n1: "d1 \<noteq> NaN"
    using Cons.prems js_lt_not_NaN by (auto simp: d1_def)
  from Cons.IH [OF z1 n1] obtain d where d:
    "zBuffer (runCalls W H cs ?b1) k = Some d" "d \<noteq> NaN"
    "d = d1 \<or> d \<in> set [pz c. c \<leftarrow> cs, cellIndex W H (px c) (py c) = Some k]"
    "js_lt d d1 \<or> d = d1"
    "\<forall>h \<in> set [pz c. c \<leftarrow> cs, cellIndex W H (px c) (py c) = Some k]. h \<noteq> NaN \<longrightarrow> js_lt d h \<or> d = h"
    by blast
  have le0: "js_lt d1 d0 \<or> d1 = d0" by (simp add: d1_def)
  have le: "js_lt d d0 \<or> d = d0" using d(4) le0 js_lt_trans by blast
  have mem: "d = d0 \<or> d \<in> set [pz c. c \<leftarrow> c # cs, cellIndex W H (px c) (py c) = Some k]"
    using d(3) by (auto simp: d1_def split: if_splits)
  have hd: "cellIndex W H (px c) (py c) = Some k \<Longrightarrow> pz c \<noteq> NaN \<Longrightarrow> js_lt d (pz c) \<or> d = pz c"
  proof -
    assume hit: "cellIndex W H (px c) (py c) = Some k" and nn: "pz c \<noteq> NaN"
    have "js_lt d1 (pz c) \<or> d1 = pz c"
      using js_lt_total [OF nn Cons.prems(2)] hit by (auto simp: d1_def)
    then show ?thesis using d(4) js_lt_trans by blast
  qed
  have all: "\<forall>h \<in> set [pz c. c \<leftarrow> c # cs, cellIndex W H (px c) (py c) = Some k]. h \<noteq> NaN \<longrightarrow> js_lt d h \<or> d = h"
    using d(5) hd by auto
  show ?case
    using d(1,2) le mem all by (simp only: runCalls_Cons) blast
qed

section \<open>The claims about \<open>drawPixel\<close>\<close>

text \<open>
  Claim C6.  \<open>drawPixel\<close> rounds \<open>x\<close> and \<open>y\<close>; with the rounded coordinates outside the
  grid (or not finite) it returns the buffers as they are; inside the grid it writes
  exactly when \<open>z\<close> is strictly less than the stored depth, and then overwrites the depth
  cell and the character cell; a depth equal to the stored one leaves the earlier write.
\<close>

theorem drawPixel_depth_test:
  "(let i = round_half_up a; j = round_half_up c; k = nat j * W + nat i
    in if 0 \<le> i \<and> i < int W \<and> 0 \<le> j \<and> j < int H
       then (if js_lt z (storedDepth bufs k)
             then drawPixel W H (Fin a) (Fin c) z glyph color bufs =
                    bufs\<lparr>zBuffer := (zBuffer bufs)(k \<mapsto> z),
                         frameBuffer := (frameBuffer bufs)(k \<mapsto> cellText color glyph)\<rparr>
             else drawPixel W H (Fin a) (Fin c) z glyph color bufs = bufs)
       else drawPixel W H (Fin a) (Fin c) z glyph color bufs = bufs) \<and>
   ((\<forall>a. x0 \<noteq> Fin a) \<or> (\<forall>c. y0 \<noteq> Fin c) \<longrightarrow>
      drawPixel W H x0 y0 z glyph color bufs = bufs) \<and>
   (cellIndex W H x0 y0 = Some k0 \<and> storedDepth bufs k0 = z \<longrightarrow>
      drawPixel W H x0 y0 z glyph color bufs = bufs)"
proof -
  have tie: "cellIndex W H x0 y0 = Some k0 \<and> storedDepth bufs k0 = z \<longrightarrow>
      drawPixel W H x0 y0 z glyph color bufs = bufs"
    by (simp add: drawPixel_cellIndex)
  show ?thesis
    using tie drawPixel_nonfinite [of x0 y0 W H z glyph color bufs]
    by (simp add: drawPixel_finite Let_def)
qed

theorem drawPixel_depth_test_witness:
  "drawPixel 3 2 (Fin (3/2)) (Fin (2/5)) (Fin 1) ''#'' \<lparr>rgb_r = 255, rgb_g = 0, rgb_b = 0\<rparr> (freshBuffers 3 2) =
     (freshBuffers 3 2)\<lparr>zBuffer := (zBuffer (freshBuffers 3 2))(2 \<mapsto> Fin 1),
        frameBuffer := (frameBuffer (freshBuffers 3 2))(2 \<mapsto> CHR 0x1B # ''[38;2;255;0;0m#'')\<rparr> \<and>
   drawPixel 3 2 (Fin 3) (Fin 0) (Fin 1) ''#'' \<lparr>rgb_r = 255, rgb_g = 0, rgb_b = 0\<rparr> (freshBuffers 3 2) =
     freshBuffers 3 2 \<and>
   drawPixel 3 2 NaN (Fin 0) (Fin 1) ''#'' \<lparr>rgb_r = 255, rgb_g = 0, rgb_b = 0\<rparr> (freshBuffers 3 2) =
     freshBuffers 3 2 \<and>
   cellIndex 3 2 (Fin (3/2)) (Fin (2/5)) = Some 2 \<and> storedDepth (freshBuffers 3 2) 2 = PInf \<and>
   drawPixel 3 2 (Fin (3/2)) (Fin (2/5)) PInf ''#'' \<lparr>rgb_r = 255, rgb_g = 0, rgb_b = 0\<rparr> (freshBuffers 3 2) =
     freshBuffers 3 2"
proof -
  let ?red = "\<lparr>rgb_r = 255, rgb_g = 0, rgb_b = 0\<rparr>"
  have pass: "drawPixel 3 2 (Fin (3/2)) (Fin (2/5)) (Fin 1) ''#'' ?red (freshBuffers 3 2) =
     (freshBuffers 3 2)\<lparr>zBuffer := (zBuffer (freshBuffers 3 2))(2 \<mapsto> Fin 1),
        frameBuffer := (frameBuffer (freshBuffers 3 2))(2 \<mapsto> CHR 0x1B # ''[38;2;255;0;0m#'')\<rparr>"
    using drawPixel_depth_test [where a = "3/2" and c = "2/5" and W = 3 and H = 2 and z = "Fin 1"
        and bufs = "freshBuffers 3 2" and glyph = "''#''" and color = ?red]
    by (simp add: round_half_up_def storedDepth_def freshBuffers_def cellText_def showInt_def)
  have outside: "drawPixel 3 2 (Fin 3) (Fin 0) (Fin 1) ''#'' ?red (freshBuffers 3 2) = freshBuffers 3 2"
    using drawPixel_depth_test [where a = 3 and c = 0 and W = 3 and H = 2 and z = "Fin 1"
        and bufs = "freshBuffers 3 2" and glyph = "''#''" and color = ?red]
    by (simp add: round_half_up_def)
  have nan: "drawPixel 3 2 NaN (Fin 0) (Fin 1) ''#'' ?red (freshBuffers 3 2) = freshBuffers 3 2"
    using drawPixel_depth_test [where ?x0.0 = NaN and ?y0.0 = "Fin 0" and W = 3 and H = 2 and z = "Fin 1"
        and bufs = "freshBuffers 3 2" and glyph = "''#''" and color = ?red]
    by simp
  have ci: "cellIndex 3 2 (Fin (3/2)) (Fin (2/5)) = Some 2"
    by (simp add: cellIndex_def round_half_up_def)
  have sd: "storedDepth (freshBuffers 3 2) 2 = PInf"
    by (simp add: storedDepth_def freshBuffers_def)
  have tie: "drawPixel 3 2 (Fin (3/2)) (Fin (2/5)) PInf ''#'' ?red (freshBuffers 3 2) = freshBuffers 3 2"
    using drawPixel_depth_test [where ?x0.0 = "Fin (3/2)" and ?y0.0 = "Fin (2/5)" and W = 3 and H = 2
        and z = PInf and ?k0.0 = 2 and bufs = "freshBuffers 3 2" and glyph = "''#''" and color = ?red]
      ci sd
    by simp
  show ?thesis using pass outside nan ci sd tie by simp
qed

text \<open>
  Claim C10.  A cell of either buffer that \<open>drawPixel\<close> changes is the cell at index
  \<open>round(y) * WIDTH + round(x)\<close>, and the depth test passed there; with the coordinates
  outside the grid, or with a failing depth test, both buffers are unchanged.
\<close>

theorem drawPixel_single_cell:
  "(zBuffer (drawPixel W H x0 y0 z glyph color bufs) k \<noteq> zBuffer bufs k \<or>
    frameBuffer (drawPixel W H x0 y0 z glyph color bufs) k \<noteq> frameBuffer bufs k \<longrightarrow>
      cellIndex W H x0 y0 = Some k \<and> js_lt z (storedDepth bufs k)) \<and>
   (cellIndex W H (Fin a) (Fin c) = Some k \<longrightarrow>
      k = nat (round_half_up c) * W + nat (round_half_up a)) \<and>
   ((\<forall>a. x0 \<noteq> Fin a) \<or> (\<forall>c. y0 \<noteq> Fin c) \<longrightarrow> cellIndex W H x0 y0 = None) \<and>
   (cellIndex W H x0 y0 = None \<longrightarrow> drawPixel W H x0 y0 z glyph color bufs = bufs) \<and>
   (cellIndex W H x0 y0 = Some k \<and> \<not> js_lt z (storedDepth bufs k) \<longrightarrow>
      drawPixel W H x0 y0 z glyph color bufs = bufs)"
proof -
  have only: "zBuffer (drawPixel W H x0 y0 z glyph color bufs) k \<noteq> zBuffer bufs k \<or>
      frameBuffer (drawPixel W H x0 y0 z glyph color bufs) k \<noteq> frameBuffer bufs k \<longrightarrow>
      cellIndex W H x0 y0 = Some k \<and> js_lt z (storedDepth bufs k)"
    by (auto simp: drawPixel_cellIndex split: option.splits if_splits)
  have idx: "cellIndex W H (Fin a) (Fin c) = Some k \<longrightarrow>
      k = nat (round_half_up c) * W + nat (round_half_up a)"
    by (auto simp: cellIndex_def Let_def split: if_splits)
  have nonfin: "(\<forall>a. x0 \<noteq> Fin a) \<or> (\<forall>c. y0 \<noteq> Fin c) \<longrightarrow> cellIndex W H x0 y0 = None"
    by (cases x0; cases y0) (simp_all add: cellIndex_def)
  show ?thesis
    using only idx nonfin by (simp add: drawPixel_cellIndex)
qed

theorem drawPixel_single_cell_witness:
  "zBuffer (drawPixel 3 2 (Fin (3/2)) (Fin (2/5)) (Fin 1) ''#'' \<lparr>rgb_r = 255, rgb_g = 0, rgb_b = 0\<rparr>
      (freshBuffers 3 2)) 2 \<noteq> zBuffer (freshBuffers 3 2) 2 \<and>
   cellIndex 3 2 (Fin (3/2)) (Fin (2/5)) = Some 2 \<and>
   js_lt (Fin 1) (storedDepth (freshBuffers 3 2) 2) \<and>
   (2::nat) = nat (round_half_up (2/5)) * 3 + nat (round_half_up (3/2)) \<and>
   cellIndex 3 2 NaN (Fin 0) = None \<and>
   drawPixel 3 2 NaN (Fin 0) (Fin 1) ''#'' \<lparr>rgb_r = 255, rgb_g = 0, rgb_b = 0\<rparr> (freshBuffers 3 2) =
     freshBuffers 3 2 \<and>
   \<not> js_lt PInf (storedDepth (freshBuffers 3 2) 2) \<and>
   drawPixel 3 2 (Fin (3/2)) (Fin (2/5)) PInf ''#'' \<lparr>rgb_r = 255, rgb_g = 0, rgb_b = 0\<rparr> (freshBuffers 3 2) =
     freshBuffers 3 2"
proof -
  let ?red = "\<lparr>rgb_r = 255, rgb_g = 0, rgb_b = 0\<rparr>"
  have changed: "zBuffer (drawPixel 3 2 (Fin (3/2)) (Fin (2/5)) (Fin 1) ''#'' ?red (freshBuffers 3 2)) 2
      \<noteq> zBuffer (freshBuffers 3 2) 2"
    by (simp add: drawPixel_finite round_half_up_def storedDepth_def freshBuffers_def)
  note pass = drawPixel_single_cell [where W = 3 and H = 2 and ?x0.0 = "Fin (3/2)" and ?y0.0 = "Fin (2/5)"
      and z = "Fin 1" and glyph = "''#''" and color = ?red and bufs = "freshBuffers 3 2" and k = 2
      and a = "3/2" and c = "2/5"]
  have ci: "cellIndex 3 2 (Fin (3/2)) (Fin (2/5)) = Some 2"
    and lt: "js_lt (Fin 1) (storedDepth (freshBuffers 3 2) 2)"
    and k: "(2::nat) = nat (round_half_up (2/5)) * 3 + nat (round_half_up (3/2))"
    using pass changed by blast+
  note nan = drawPixel_single_cell [where W = 3 and H = 2 and ?x0.0 = NaN and ?y0.0 = "Fin 0"
      and z = "Fin 1" and glyph = "''#''" and color = ?red and bufs = "freshBuffers 3 2"]
  have cn: "cellIndex 3 2 NaN (Fin 0) = None"
    and dn: "drawPixel 3 2 NaN (Fin 0) (Fin 1) ''#'' ?red (freshBuffers 3 2) = freshBuffers 3 2"
    using nan by simp_all
  have nlt: "\<not> js_lt PInf (storedDepth (freshBuffers 3 2) 2)"
    by (simp add: storedDepth_def freshBuffers_def)
  note fail = drawPixel_single_cell [where W = 3 and H = 2 and ?x0.0 = "Fin (3/2)" and ?y0.0 = "Fin (2/5)"
      and z = PInf and glyph = "''#''" and color = ?red and bufs = "freshBuffers 3 2" and k = 2]
  have df: "drawPixel 3 2 (Fin (3/2)) (Fin (2/5)) PInf ''#'' ?red (freshBuffers 3 2) = freshBuffers 3 2"
    using fail ci nlt by blast
  show ?thesis using changed ci lt k cn dn nlt df by blast
qed

text \<open>
  Claim C1.  After any sequence of \<open>drawPixel\<close> calls on the fresh buffers of a frame, the
  depth in a cell of the grid is a number, it is \<open>Infinity\<close> (the initial value) or the
  depth of a call that addressed the cell, and it is less than or equal to the depth of
  every call that addressed the cell with a depth that is a number: the minimum,
  whatever the order of the calls.
\<close>

theorem zBuffer_holds_minimum:
  "k < W * H \<Longrightarrow>
   \<exists>d. zBuffer (runCalls W H cs (freshBuffers W H)) k = Some d \<and> d \<noteq> NaN \<and>
       (d = PInf \<or> d \<in> set [pz c. c \<leftarrow> cs, cellIndex W H (px c) (py c) = Some k]) \<and>
       (\<forall>h \<in> set [pz c. c \<leftarrow> cs, cellIndex W H (px c) (py c) = Some k].
          h \<noteq> NaN \<longrightarrow> js_lt d h \<or> d = h)"
proof -
  assume k: "k < W * H"
  have z0: "zBuffer (freshBuffers W H) k = Some PInf" using k by (simp add: freshBuffers_def)
  from zBuffer_runCalls [OF z0, of W H cs] show ?thesis by blast
qed

theorem zBuffer_holds_minimum_witness:
  "(1::nat) < 2 * 1 \<and>
   zBuffer (runCalls 2 1
     [\<lparr>px = Fin (6/5), py = Fin 0, pz = Fin 5, pglyph = ''#'', pcolor = \<lparr>rgb_r = 255, rgb_g = 0, rgb_b = 0\<rparr>\<rparr>,
      \<lparr>px = Fin (3/5), py = Fin (2/5), pz = Fin 3, pglyph = ''#'', pcolor = \<lparr>rgb_r = 255, rgb_g = 0, rgb_b = 0\<rparr>\<rparr>,
      \<lparr>px = Fin 1, py = Fin 0, pz = Fin 4, pglyph = ''#'', pcolor = \<lparr>rgb_r = 255, rgb_g = 0, rgb_b = 0\<rparr>\<rparr>,
      \<lparr>px = Fin 0, py = Fin 0, pz = Fin 1, pglyph = ''#'', pcolor = \<lparr>rgb_r = 255, rgb_g = 0, rgb_b = 0\<rparr>\<rparr>]
     (freshBuffers 2 1)) 1 = Some (Fin 3)"
  using zBuffer_holds_minimum [of 1 2 1
     "[\<lparr>px = Fin (6/5), py = Fin 0, pz = Fin 5, pglyph = ''#'', pcolor = \<lparr>rgb_r = 255, rgb_g = 0, rgb_b = 0\<rparr>\<rparr>,
      \<lparr>px = Fin (3/5), py = Fin (2/5), pz = Fin 3, pglyph = ''#'', pcolor = \<lparr>rgb_r = 255, rgb_g = 0, rgb_b = 0\<rparr>\<rparr>,
      \<lparr>px = Fin 1, py = Fin 0, pz = Fin 4, pglyph = ''#'', pcolor = \<lparr>rgb_r = 255, rgb_g = 0, rgb_b = 0\<rparr>\<rparr>,
      \<lparr>px = Fin 0, py = Fin 0, pz = Fin 1, pglyph = ''#'', pcolor = \<lparr>rgb_r = 255, rgb_g = 0, rgb_b = 0\<rparr>\<rparr>]"]
  by (auto simp: cellIndex_def round_half_up_def)

text \<open>
  The buffers of \<open>renderFrame\<close> are such a run: the calls of the frame on fresh buffers.
\<close>

lemma renderFrame_zBuffer:
  assumes "renderFrame W H ramp gradient time cubes = (time', cubes', Some bufs)" and "k < W * H"
  shows "\<exists>cs d. frameCalls W H ramp gradient cubes = Some cs \<and>
           zBuffer bufs k = Some d \<and> d \<noteq> NaN \<and>
           (d = PInf \<or> d \<in> set [pz c. c \<leftarrow> cs, cellIndex W H (px c) (py c) = Some k]) \<and>
           (\<forall>h \<in> set [pz c. c \<leftarrow> cs, cellIndex W H (px c) (py c) = Some k].
              h \<noteq> NaN \<longrightarrow> js_lt d h \<or> d = h)"
proof -
  from assms(1) obtain cs where cs: "frameCalls W H ramp gradient cubes = Some cs"
    and b: "bufs = runCalls W H cs (freshBuffers W H)"
    by (auto simp: renderFrame_def)
  have z0: "zBuffer (freshBuffers W H) k = Some PInf"
    using assms(2) by (simp add: freshBuffers_def)
  from zBuffer_runCalls [OF z0, of W H cs] show ?thesis
    unfolding b using cs by blast
qed

section \<open>Matrices, camera and projection\<close>

lemma upt4: "[0..<4] = [0, 1, 2, 3]"
  by (simp add: upt_rec)

lemma mat4_multiply_explicit:
  "mat4_multiply [a0, a1, a2, a3, a4, a5, a6, a7, a8, a9, a10, a11, a12, a13, a14, a15]
                 [b0, b1, b2, b3, b4, b5, b6, b7, b8, b9, b10, b11, b12, b13, b14, b15] =
    [a0 * b0 + a1 * b4 + a2 * b8 + a3 * b12,
     a0 * b1 + a1 * b5 + a2 * b9 + a3 * b13,
     a0 * b2 + a1 * b6 + a2 * b10 + a3 * b14,
     a0 * b3 + a1 * b7 + a2 * b11 + a3 * b15,
     a4 * b0 + a5 * b4 + a6 * b8 + a7 * b12,
     a4 * b1 + a5 * b5 + a6 * b9 + a7 * b13,
     a4 * b2 + a5 * b6 + a6 * b10 + a7 * b14,
     a4 * b3 + a5 * b7 + a6 * b11 + a7 * b15,
     a8 * b0 + a9 * b4 + a10 * b8 + a11 * b12,
     a8 * b1 + a9 * b5 + a10 * b9 + a11 * b13,
     a8 * b2 + a9 * b6 + a10 * b10 + a11 * b14,
     a8 * b3 + a9 * b7 + a10 * b11 + a11 * b15,
     a12 * b0 + a13 * b4 + a14 * b8 + a15 * b12,
     a12 * b1 + a13 * b5 + a14 * b9 + a15 * b13,
     a12 * b2 + a13 * b6 + a14 * b10 + a15 * b14,
     a12 * b3 + a13 * b7 + a14 * b11 + a15 * b15]"
  by (simp add: mat4_multiply_def mat4_create_def upt4)


lemma sqrt_25: "sqrt 25 = 5"
  by (rule real_sqrt_unique) simp_all

lemma viewMatrix_camera:
  "createViewMatrix camera = [- 1, 0, 0, 0,  0, 1, 0, 0,  0, 0, - 1, 0,  0, 0, - 5, 1]"
  by (simp add: createViewMatrix_def camera_def vec3_normalize_def vec3_subtract_def
      vec3_cross_def vec3_dot_def vec3_create_def vlen_def Let_def sqrt_25)

lemma multiply_identity_right:
  "mat4_multiply [a0, a1, a2, a3, a4, a5, a6, a7, a8, a9, a10, a11, a12, a13, a14, a15] mat4_create
     = [a0, a1, a2, a3, a4, a5, a6, a7, a8, a9, a10, a11, a12, a13, a14, a15]"
  unfolding mat4_create_def by (simp add: mat4_multiply_explicit)

lemma origin_w_zero:
  assumes "createProjectionMatrix fov aspect near far = Some P"
  shows "mat4_multiply P (mat4_multiply (createViewMatrix camera) mat4_create) ! 15 = 0"
    and "mat4_multiply P (mat4_multiply (createViewMatrix camera) mat4_create) ! 12 = 0"
    and "mat4_multiply P (mat4_multiply (createViewMatrix camera) mat4_create) ! 13 = 0"
  using assms
  by (auto simp: createProjectionMatrix_def viewMatrix_camera multiply_identity_right
      mat4_multiply_explicit Let_def split: if_splits)

lemma origin_NaN:
  assumes "createProjectionMatrix fov aspect near far = Some P"
  shows "vx (toScreen W H (mat4_transformPoint
            (mat4_multiply P (mat4_multiply (createViewMatrix camera) mat4_create))
            (vec3_create 0 0 0))) = NaN"
    and "vy (toScreen W H (mat4_transformPoint
            (mat4_multiply P (mat4_multiply (createViewMatrix camera) mat4_create))
            (vec3_create 0 0 0))) = NaN"
  using origin_w_zero [OF assms]
  by (simp_all add: toScreen_def mat4_transformPoint_def vec3_create_def js_div_def Let_def)

lemma projection_program:
  "createProjectionMatrix (pi / 2) (80 / 24) (1 / 10) 100 =
     Some [3 / 10, 0, 0, 0,  0, 1, 0, 0,  0, 0, - (1001 / 999), - 1,  0, 0, - (200 / 999), 0]"
  by (simp add: createProjectionMatrix_def tan_45 cos_45 Let_def)

text \<open>
  Claim C4.  The claim is that the origin, a point on the forward axis of the camera at
  \<open>(0, 0, -5)\<close>, is mapped to the screen centre \<open>(width / 2, height / 2)\<close> by
  \<open>transformPoint\<close> with the matrix \<open>projection \<cdot> view \<cdot> identity\<close> and the screen mapping.
  Composed as \<open>renderFrame\<close> composes it, the matrix has \<open>w = 0\<close> at the origin: both
  screen coordinates are \<open>NaN\<close>, with the constants of the program and an 80 by 24 grid
  as with every other projection (\<open>origin_NaN\<close>).
\<close>

theorem origin_not_screen_centre:
  "\<exists>P. createProjectionMatrix (pi / 2) (80 / 24) (1 / 10) 100 = Some P \<and>
       vx (mat4_transformPoint (mat4_multiply P (mat4_multiply (createViewMatrix camera) mat4_create))
            (vec3_create 0 0 0)) = NaN \<and>
       vx (toScreen 80 24 (mat4_transformPoint
            (mat4_multiply P (mat4_multiply (createViewMatrix camera) mat4_create))
            (vec3_create 0 0 0))) = NaN \<and>
       vy (toScreen 80 24 (mat4_transformPoint
            (mat4_multiply P (mat4_multiply (createViewMatrix camera) mat4_create))
            (vec3_create 0 0 0))) = NaN"
proof -
  obtain P where P: "createProjectionMatrix (pi / 2) (80 / 24) (1 / 10) 100 = Some P"
    using projection_program by blast
  have "vx (mat4_transformPoint (mat4_multiply P (mat4_multiply (createViewMatrix camera) mat4_create))
            (vec3_create 0 0 0)) = NaN"
    using origin_w_zero [OF P]
    by (simp add: mat4_transformPoint_def vec3_create_def js_div_def Let_def)
  then show ?thesis using P origin_NaN [OF P, of 80 24] by blast
qed


lemma transformPoint_XRotation:
  "mat4_transformPoint (mat4_fromXRotation a) p =
     finVec \<lparr>vx = vx p, vy = cos a * vy p + sin a * vz p, vz = - sin a * vy p + cos a * vz p\<rparr>"
  by (simp add: mat4_transformPoint_def mat4_fromXRotation_def js_div_def finVec_def Let_def)

lemma transformPoint_YRotation:
  "mat4_transformPoint (mat4_fromYRotation a) p =
     finVec \<lparr>vx = cos a * vx p - sin a * vz p, vy = vy p, vz = sin a * vx p + cos a * vz p\<rparr>"
  by (simp add: mat4_transformPoint_def mat4_fromYRotation_def js_div_def finVec_def Let_def)

lemma worldMatrix_explicit:
  "worldMatrix c =
     (let cx = cos (vx (cube_rotation c)); sx = sin (vx (cube_rotation c));
          cy = cos (vy (cube_rotation c)); sy = sin (vy (cube_rotation c))
      in [cy, 0, sy, 0,
          sx * sy, cx, - (sx * cy), 0,
          - (cx * sy), sx, cx * cy, 0,
          0, 0, 0, 1])"
  by (simp add: worldMatrix_def mat4_fromXRotation_def mat4_fromYRotation_def Let_def
      mat4_multiply_explicit)

lemma transformPoint_worldMatrix:
  "mat4_transformPoint (worldMatrix c) p =
     mat4_transformPoint (mat4_fromYRotation (vy (cube_rotation c)))
       \<lparr>vx = vx p,
        vy = cos (vx (cube_rotation c)) * vy p + sin (vx (cube_rotation c)) * vz p,
        vz = - sin (vx (cube_rotation c)) * vy p + cos (vx (cube_rotation c)) * vz p\<rparr>"
  by (simp add: transformPoint_YRotation)
     (simp add: worldMatrix_explicit mat4_transformPoint_def js_div_def finVec_def Let_def
       algebra_simps)

text \<open>
  The order of the two rotations, for claim C3: with both angles a quarter turn, the
  world matrix takes \<open>(0, 0, 1)\<close> to \<open>(0, 1, 0)\<close>, while the Y rotation followed by the X
  rotation takes it to \<open>(-1, 0, 0)\<close>, as does the product \<open>rotationY \<cdot> rotationX\<close>.
\<close>

theorem world_matrix_Y_first_counterexample:
  "mat4_transformPoint
     (worldMatrix \<lparr>cube_position = vec3_create 3 4 5, cube_rotation = vec3_create (pi / 2) (pi / 2) 0,
                   cube_scale = vec3_create 1 1 1\<rparr>) (vec3_create 0 0 1)
     = \<lparr>vx = Fin 0, vy = Fin 1, vz = Fin 0\<rparr> \<and>
   mat4_transformPoint (mat4_fromYRotation (pi / 2)) (vec3_create 0 0 1)
     = \<lparr>vx = Fin (- 1), vy = Fin 0, vz = Fin 0\<rparr> \<and>
   mat4_transformPoint (mat4_fromXRotation (pi / 2)) (vec3_create (- 1) 0 0)
     = \<lparr>vx = Fin (- 1), vy = Fin 0, vz = Fin 0\<rparr> \<and>
   mat4_transformPoint
     (worldMatrix \<lparr>cube_position = vec3_create 3 4 5, cube_rotation = vec3_create (pi / 2) (pi / 2) 0,
                   cube_scale = vec3_create 1 1 1\<rparr>) (vec3_create 0 0 1)
     \<noteq> mat4_transformPoint (mat4_fromXRotation (pi / 2)) (vec3_create (- 1) 0 0) \<and>
   mat4_transformPoint
     (mat4_multiply (mat4_fromYRotation (pi / 2)) (mat4_fromXRotation (pi / 2))) (vec3_create 0 0 1)
     = \<lparr>vx = Fin (- 1), vy = Fin 0, vz = Fin 0\<rparr>"
  by (simp add: worldMatrix_explicit mat4_multiply_explicit mat4_transformPoint_def mat4_fromXRotation_def
      mat4_fromYRotation_def js_div_def vec3_create_def Let_def)

text \<open>
  Claim C3, as the code has it.  The combined transform of a cube is
  \<open>multiply(projection, multiply(view, multiply(fromXRotation, fromYRotation)))\<close>; applied
  with \<open>transformPoint\<close>, the world matrix performs the X rotation on the point first and
  the Y rotation on the result; the position of the cube changes neither matrix, and
  the world matrix leaves the origin where it is.
\<close>

theorem world_matrix_X_then_Y:
  "cubeTransform projectionMatrix viewMatrix c =
     mat4_multiply projectionMatrix (mat4_multiply viewMatrix
       (mat4_multiply (mat4_fromXRotation (vx (cube_rotation c)))
                      (mat4_fromYRotation (vy (cube_rotation c))))) \<and>
   (\<exists>q. mat4_transformPoint (mat4_fromXRotation (vx (cube_rotation c))) p = finVec q \<and>
        mat4_transformPoint (worldMatrix c) p =
          mat4_transformPoint (mat4_fromYRotation (vy (cube_rotation c))) q) \<and>
   worldMatrix (c\<lparr>cube_position := v\<rparr>) = worldMatrix c \<and>
   cubeTransform projectionMatrix viewMatrix (c\<lparr>cube_position := v\<rparr>) =
     cubeTransform projectionMatrix viewMatrix c \<and>
   mat4_transformPoint (worldMatrix c) (vec3_create 0 0 0) = finVec (vec3_create 0 0 0)"
proof -
  have comp: "\<exists>q. mat4_transformPoint (mat4_fromXRotation (vx (cube_rotation c))) p = finVec q \<and>
        mat4_transformPoint (worldMatrix c) p =
          mat4_transformPoint (mat4_fromYRotation (vy (cube_rotation c))) q"
    using transformPoint_XRotation transformPoint_worldMatrix by blast
  have orig: "mat4_transformPoint (worldMatrix c) (vec3_create 0 0 0) = finVec (vec3_create 0 0 0)"
    by (simp add: worldMatrix_explicit mat4_transformPoint_def js_div_def finVec_def
        vec3_create_def Let_def)
  show ?thesis
    using comp orig by (simp add: cubeTransform_def worldMatrix_def)
qed

text \<open>
  The combined transform has \<open>w = -z\<close> for a point of object space, and every vertex of
  the cube has \<open>z = 1\<close> or \<open>z = -1\<close>: the screen vertices of a cube are finite, whatever its
  rotation.
\<close>

lemma cubeTransform_w:
  assumes "createProjectionMatrix fov aspect near far = Some P"
  shows "cubeTransform P (createViewMatrix camera) c ! 3 = 0"
    and "cubeTransform P (createViewMatrix camera) c ! 7 = 0"
    and "cubeTransform P (createViewMatrix camera) c ! 11 = - 1"
    and "cubeTransform P (createViewMatrix camera) c ! 15 = 0"
  using assms
  by (auto simp: createProjectionMatrix_def cubeTransform_def viewMatrix_camera worldMatrix_explicit
      mat4_multiply_explicit Let_def split: if_splits)

lemma toScreen_finite:
  assumes "m ! 3 * vx p + m ! 7 * vy p + m ! 11 * vz p + m ! 15 \<noteq> 0"
  shows "finiteVec (toScreen W H (mat4_transformPoint m p)) \<noteq> None"
  using assms by (simp add: finiteVec_def toScreen_def mat4_transformPoint_def js_div_def Let_def)

lemma cube_vertices_finite:
  assumes "createProjectionMatrix fov aspect near far = Some P"
    and "tv \<in> set (transformedVertices W H (cubeTransform P (createViewMatrix camera) c))"
  shows "finiteVec tv \<noteq> None"
proof -
  from assms(2) obtain v where v: "v \<in> set cubeMesh_vertices"
    and tv: "tv = toScreen W H (mat4_transformPoint (cubeTransform P (createViewMatrix camera) c) (pos v))"
    by (auto simp: transformedVertices_def)
  have "vz (pos v) = 1 \<or> vz (pos v) = - 1"
    using v by (auto simp: cubeMesh_vertices_def vec3_create_def)
  then have "cubeTransform P (createViewMatrix camera) c ! 3 * vx (pos v) +
      cubeTransform P (createViewMatrix camera) c ! 7 * vy (pos v) +
      cubeTransform P (createViewMatrix camera) c ! 11 * vz (pos v) +
      cubeTransform P (createViewMatrix camera) c ! 15 \<noteq> 0"
    by (auto simp: cubeTransform_w [OF assms(1)])
  then show ?thesis unfolding tv by (rule toScreen_finite)
qed

section \<open>Lighting, culling and glyphs\<close>

lemma sqrt_16: "sqrt 16 = 4"
  by (rule real_sqrt_unique) simp_all












text \<open>
  Claim C5.  A triangle of the mesh whose face normal
  \<open>normalize(cross(v2 - v1, v3 - v1))\<close> has a dot product of at most zero with the
  normalized light direction \<open>(1, 1, -1)\<close> issues no \<open>drawPixel\<close> call, through no
  \<open>drawLine\<close> call, and leaves both buffers as they were.
\<close>

theorem culled_triangle_draws_nothing:
  "v1 = cubeMesh_vertices ! (cubeMesh_indices ! i) \<Longrightarrow>
   v2 = cubeMesh_vertices ! (cubeMesh_indices ! (i + 1)) \<Longrightarrow>
   v3 = cubeMesh_vertices ! (cubeMesh_indices ! (i + 2)) \<Longrightarrow>
   vec3_dot (vec3_normalize (vec3_cross (vec3_subtract (pos v2) (pos v1)) (vec3_subtract (pos v3) (pos v1))))
            (vec3_normalize (vec3_create 1 1 (- 1))) \<le> 0 \<Longrightarrow>
   triangleCalls ramp gradient tvs i = Some [] \<and>
   renderTriangle W H ramp gradient tvs i bufs = Some bufs"
  by (simp add: renderTriangle_def triangleCalls_def triangleIntensity_def faceIntensity_def
      lightDir_def Let_def runCalls_def)

theorem culled_triangle_draws_nothing_witness:
  "vec3_dot (vec3_normalize (vec3_cross
       (vec3_subtract (pos (cubeMesh_vertices ! (cubeMesh_indices ! 1))) (pos (cubeMesh_vertices ! (cubeMesh_indices ! 0))))
       (vec3_subtract (pos (cubeMesh_vertices ! (cubeMesh_indices ! 2))) (pos (cubeMesh_vertices ! (cubeMesh_indices ! 0))))))
     (vec3_normalize (vec3_create 1 1 (- 1))) \<le> 0 \<and>
   triangleCalls '' .:-=+*#%@'' (\<lambda>i. \<lparr>rgb_r = 255 * i, rgb_g = 0, rgb_b = 0\<rparr>) [] 0 = Some [] \<and>
   renderTriangle 80 24 '' .:-=+*#%@'' (\<lambda>i. \<lparr>rgb_r = 255 * i, rgb_g = 0, rgb_b = 0\<rparr>) [] 0
     (freshBuffers 80 24) = Some (freshBuffers 80 24)"
proof -
  have neg: "vec3_dot (vec3_normalize (vec3_cross
       (vec3_subtract (pos (cubeMesh_vertices ! (cubeMesh_indices ! 1))) (pos (cubeMesh_vertices ! (cubeMesh_indices ! 0))))
       (vec3_subtract (pos (cubeMesh_vertices ! (cubeMesh_indices ! 2))) (pos (cubeMesh_vertices ! (cubeMesh_indices ! 0))))))
     (vec3_normalize (vec3_create 1 1 (- 1))) \<le> 0"
    by (simp add: cubeMesh_vertices_def cubeMesh_indices_def vec3_normalize_def vec3_cross_def
        vec3_subtract_def vec3_dot_def vec3_create_def vlen_def Let_def sqrt_16)
  have neg0: "vec3_dot (vec3_normalize (vec3_cross
       (vec3_subtract (pos (cubeMesh_vertices ! (cubeMesh_indices ! (0 + 1)))) (pos (cubeMesh_vertices ! (cubeMesh_indices ! 0))))
       (vec3_subtract (pos (cubeMesh_vertices ! (cubeMesh_indices ! (0 + 2)))) (pos (cubeMesh_vertices ! (cubeMesh_indices ! 0))))))
     (vec3_normalize (vec3_create 1 1 (- 1))) \<le> 0"
    using neg by (simp only: add_0)
  note t = culled_triangle_draws_nothing [OF refl refl refl neg0, where ramp = "'' .:-=+*#%@''"
        and gradient = "\<lambda>i. \<lparr>rgb_r = 255 * i, rgb_g = 0, rgb_b = 0\<rparr>" and tvs = "[]"
        and W = 80 and H = 24 and bufs = "freshBuffers 80 24"]
  show ?thesis
    using neg t by blast
qed

section \<open>Properties of \<open>drawLine\<close>\<close>

text \<open>Below \<open>2^53\<close> every integer is its own double.\<close>

lemma bitlen_le: "m < 2 ^ k \<Longrightarrow> bitlen m \<le> k"
proof (induction k arbitrary: m)
  case 0
  then show ?case by (simp add: bitlen.simps)
next
  case (Suc k)
  have "m div 2 < 2 ^ k" using Suc.prems by simp
  then have "bitlen (m div 2) \<le> k" by (rule Suc.IH)
  then show ?case by (subst bitlen.simps) simp
qed

lemma dbl_id: "\<bar>n\<bar> < 2 ^ 53 \<Longrightarrow> dbl n = n"
proof -
  assume "\<bar>n\<bar> < 2 ^ 53"
  then have "nat \<bar>n\<bar> < 2 ^ 53" by (simp add: nat_less_iff)
  then have "bitlen (nat \<bar>n\<bar>) \<le> 53" by (rule bitlen_le)
  then show ?thesis by (simp add: dbl_def Let_def)
qed

text \<open>The arithmetic of one step, on the steps \<open>rx\<close> and \<open>ry\<close> that remain.\<close>

lemma step_arith:
  fixes dx dy rx ry err :: int
  assumes "0 \<le> rx" "rx \<le> dx" "0 \<le> ry" "ry \<le> dy"
    and err: "err = dx - dy + rx * dy - ry * dx"
    and nd: "0 < rx + ry"
  shows "- dy < 2 * err \<Longrightarrow> 1 \<le> rx"
    and "2 * err < dx \<Longrightarrow> 1 \<le> ry"
    and "- dy < 2 * err \<or> 2 * err < dx"
proof -
  have dx0: "0 \<le> dx" and dy0: "0 \<le> dy" using assms by linarith+
  show "- dy < 2 * err \<Longrightarrow> 1 \<le> rx"
  proof (rule ccontr)
    assume c: "- dy < 2 * err" and "\<not> 1 \<le> rx"
    then have rx: "rx = 0" using assms(1) by linarith
    then have "1 \<le> ry" using nd by linarith
    then have "1 * dx \<le> ry * dx" using dx0 by (intro mult_right_mono) simp_all
    then have "err \<le> - dy" using err rx by simp
    then show False using c dy0 by linarith
  qed
  show "2 * err < dx \<Longrightarrow> 1 \<le> ry"
  proof (rule ccontr)
    assume c: "2 * err < dx" and "\<not> 1 \<le> ry"
    then have ry: "ry = 0" using assms(3) by linarith
    then have "1 \<le> rx" using nd by linarith
    then have "1 * dy \<le> rx * dy" using dy0 by (intro mult_right_mono) simp_all
    then have "dx \<le> err" using err ry by simp
    then show False using c dx0 by linarith
  qed
  show "- dy < 2 * err \<or> 2 * err < dx"
  proof (rule ccontr)
    assume "\<not> (- dy < 2 * err \<or> 2 * err < dx)"
    then have "dx \<le> - dy" by linarith
    then have "dx = 0" "dy = 0" using dx0 dy0 by linarith+
    then show False using assms(1-4) nd by linarith
  qed
qed

lemma lineStep_inv:
  fixes xs ys x1 y1 x0 y0 err dx dy sx sy :: int
  assumes dx_def: "dx = \<bar>x1 - xs\<bar>" and dy_def: "dy = \<bar>y1 - ys\<bar>"
    and sx_def: "sx = (if xs < x1 then 1 else - 1)" and sy_def: "sy = (if ys < y1 then 1 else - 1)"
    and range: "\<bar>xs\<bar> < 2 ^ 49" "\<bar>ys\<bar> < 2 ^ 49" "\<bar>x1\<bar> < 2 ^ 49" "\<bar>y1\<bar> < 2 ^ 49"
    and inv: "lineInv xs ys x1 y1 (x0, y0, err)"
    and nd: "\<not> (x0 = x1 \<and> y0 = y1)"
  shows "\<exists>x0' y0' err'. lineStep dx dy sx sy (x0, y0, err) = (x0', y0', err') \<and>
           lineInv xs ys x1 y1 (x0', y0', err') \<and> walkRel xs ys x1 y1 (x0, y0) (x0', y0')"
proof -
  define rx where "rx = sx * (x1 - x0)"
  define ry where "ry = sy * (y1 - y0)"
  have sx2: "sx * sx = 1" and sy2: "sy * sy = 1" by (simp_all add: sx_def sy_def)
  have I: "0 \<le> rx" "rx \<le> dx" "0 \<le> ry" "ry \<le> dy"
      "err = dx - dy + rx * dy - ry * dx" "\<bar>err\<bar> \<le> 2 * (dx + dy)"
    using inv unfolding lineInv_def Let_def rx_def ry_def dx_def dy_def sx_def sy_def fst_conv snd_conv
    by blast+
  have dxb: "0 \<le> dx" "dx < 2 ^ 50" and dyb: "0 \<le> dy" "dy < 2 ^ 50"
    using range by (simp_all add: dx_def dy_def)
  have x0b: "\<bar>x0\<bar> < 2 ^ 49"
    using I(1,2) range unfolding rx_def dx_def sx_def by (auto split: if_splits)
  have y0b: "\<bar>y0\<bar> < 2 ^ 49"
    using I(3,4) range unfolding ry_def dy_def sy_def by (auto split: if_splits)
  have pos: "0 < rx + ry"
  proof (rule ccontr)
    assume "\<not> 0 < rx + ry"
    then have "rx = 0" "ry = 0" using I(1,3) by linarith+
    then have "x0 = x1" "y0 = y1" unfolding rx_def ry_def sx_def sy_def by (auto split: if_splits)
    then show False using nd by simp
  qed
  note ar = step_arith [OF I(1-5) pos]
  have e2: "dbl (2 * err) = 2 * err"
    using I(6) dxb dyb by (intro dbl_id) simp
  have d1: "dbl (err - dy) = err - dy"
    using I(6) dxb dyb by (intro dbl_id) simp
  have d2: "dbl (err + dx) = err + dx"
    using I(6) dxb dyb by (intro dbl_id) simp
  have d3: "dbl (err - dy + dx) = err - dy + dx"
    using I(6) dxb dyb by (intro dbl_id) simp
  have d4: "dbl (x0 + sx) = x0 + sx"
    using x0b by (intro dbl_id) (auto simp: sx_def)
  have d5: "dbl (y0 + sy) = y0 + sy"
    using y0b by (intro dbl_id) (auto simp: sy_def)
  define cX where "cX = (- dy < 2 * err)"
  define cY where "cY = (2 * err < dx)"
  define x0' where "x0' = (if cX then x0 + sx else x0)"
  define y0' where "y0' = (if cY then y0 + sy else y0)"
  define err' where "err' = (if cX then err - dy else err) + (if cY then dx else 0)"
  define rx' where "rx' = (if cX then rx - 1 else rx)"
  define ry' where "ry' = (if cY then ry - 1 else ry)"
  have step: "lineStep dx dy sx sy (x0, y0, err) = (x0', y0', err')"
    by (simp add: lineStep_def Let_def e2 d1 d2 d3 d4 d5 cX_def cY_def x0'_def y0'_def err'_def)
  have rx'eq: "sx * (x1 - x0') = rx'"
    using sx2 by (simp add: x0'_def rx'_def rx_def algebra_simps)
  have ry'eq: "sy * (y1 - y0') = ry'"
    using sy2 by (simp add: y0'_def ry'_def ry_def algebra_simps)
  have r1: "cX \<Longrightarrow> 1 \<le> rx" and r2: "cY \<Longrightarrow> 1 \<le> ry" and r3: "cX \<or> cY"
    using ar unfolding cX_def cY_def by blast+
  have rb: "0 \<le> rx'" "rx' \<le> dx" "0 \<le> ry'" "ry' \<le> dy"
    using I(1-4) r1 r2 by (auto simp: rx'_def ry'_def)
  have errf: "err' = dx - dy + rx' * dy - ry' * dx"
    using I(5) by (simp add: err'_def rx'_def ry'_def algebra_simps)
  have errb: "\<bar>err'\<bar> \<le> 2 * (dx + dy)"
    using I(6) dxb dyb unfolding err'_def cX_def cY_def by (auto split: if_splits)
  have inv': "lineInv xs ys x1 y1 (x0', y0', err')"
    using rb errf errb unfolding rx'eq [symmetric] ry'eq [symmetric]
    unfolding lineInv_def Let_def dx_def dy_def sx_def sy_def fst_conv snd_conv by blast
  have rxa: "\<bar>x1 - x0\<bar> = rx" "\<bar>x1 - x0'\<bar> = rx'" "\<bar>y1 - y0\<bar> = ry" "\<bar>y1 - y0'\<bar> = ry'"
    using I(1,3) rb rx'eq ry'eq unfolding rx_def ry_def sx_def sy_def
    by (auto split: if_splits)
  have dist: "gridDist x1 y1 (x0', y0') < gridDist x1 y1 (x0, y0)"
    using r3 unfolding gridDist_def by (auto simp: rxa rx'_def ry'_def)
  have away: "0 \<le> sx * (x0 - xs)" "0 \<le> sy * (y0 - ys)"
    using I(1-4) unfolding rx_def ry_def dx_def dy_def sx_def sy_def by (auto split: if_splits)
  have rel: "walkRel xs ys x1 y1 (x0, y0) (x0', y0')"
    using dist away unfolding walkRel_def Let_def
    by (simp add: x0'_def y0'_def sx_def sy_def)
  show ?thesis using step inv' rel by blast
qed

lemma gridDist_nonneg: "0 \<le> gridDist x1 y1 p"
  by (simp add: gridDist_def)

lemma lineLoop_walk:
  fixes xs ys x1 y1 dx dy sx sy :: int
  assumes d: "dx = \<bar>x1 - xs\<bar>" "dy = \<bar>y1 - ys\<bar>"
      "sx = (if xs < x1 then 1 else - 1)" "sy = (if ys < y1 then 1 else - 1)"
    and range: "\<bar>xs\<bar> < 2 ^ 49" "\<bar>ys\<bar> < 2 ^ 49" "\<bar>x1\<bar> < 2 ^ 49" "\<bar>y1\<bar> < 2 ^ 49"
    and inv: "lineInv xs ys x1 y1 s"
  shows "\<exists>pts. lineLoop p1 p2 glyph color x1 y1 dx dy sx sy s acc =
           Some (acc @ map (\<lambda>p. linePixel p1 p2 glyph color x1 y1 (fst p) (snd p)) pts) \<and>
         pts \<noteq> [] \<and> hd pts = (fst s, fst (snd s)) \<and> last pts = (x1, y1) \<and>
         successively (walkRel xs ys x1 y1) pts"
  using inv
proof (induction "nat (gridDist x1 y1 (fst s, fst (snd s)))" arbitrary: s acc rule: less_induct)
  case less
  obtain x0 y0 err where s: "s = (x0, y0, err)" by (cases s) auto
  let ?px = "\<lambda>p. linePixel p1 p2 glyph color x1 y1 (fst p) (snd p)"
  show ?case
  proof (cases "x0 = x1 \<and> y0 = y1")
    case True
    have "lineLoop p1 p2 glyph color x1 y1 dx dy sx sy s acc = Some (acc @ map ?px [(x1, y1)])"
      by (subst lineLoop.simps) (simp add: s True Let_def)
    then show ?thesis
      by (intro exI [of _ "[(x1, y1)]"]) (simp add: s True)
  next
    case False
    from lineStep_inv [OF d range less.prems [unfolded s] False]
    obtain x0' y0' err' where
      st: "lineStep dx dy sx sy (x0, y0, err) = (x0', y0', err')"
      and inv': "lineInv xs ys x1 y1 (x0', y0', err')"
      and rel: "walkRel xs ys x1 y1 (x0, y0) (x0', y0')"
      by blast
    have "gridDist x1 y1 (x0', y0') < gridDist x1 y1 (x0, y0)"
      using rel by (simp add: walkRel_def Let_def)
    then have lt: "nat (gridDist x1 y1 (fst (x0', y0', err'), fst (snd (x0', y0', err'))))
        < nat (gridDist x1 y1 (fst s, fst (snd s)))"
      using gridDist_nonneg [of x1 y1 "(x0', y0')"] by (simp add: s)
    from less.hyps [OF lt inv', of "acc @ [?px (x0, y0)]"]
    obtain pts where
      run: "lineLoop p1 p2 glyph color x1 y1 dx dy sx sy (x0', y0', err')
             (acc @ [?px (x0, y0)]) = Some ((acc @ [?px (x0, y0)]) @ map ?px pts)"
      and ne: "pts \<noteq> []" and hd: "hd pts = (x0', y0')" and la: "last pts = (x1, y1)"
      and su: "successively (walkRel xs ys x1 y1) pts"
      by auto
    have "lineLoop p1 p2 glyph color x1 y1 dx dy sx sy s acc =
           Some (acc @ map ?px ((x0, y0) # pts))"
      using run by (subst lineLoop.simps) (simp add: s False st Let_def)
    moreover have "successively (walkRel xs ys x1 y1) ((x0, y0) # pts)"
      using ne hd su rel by (cases pts) simp_all
    ultimately show ?thesis
      using ne la by (intro exI [of _ "(x0, y0) # pts"]) (simp add: s)
  qed
qed

lemma drawLine_calls_walk:
  fixes xs ys x1 y1 :: int
  assumes r: "xs = round_half_up (vx p1)" "ys = round_half_up (vy p1)"
      "x1 = round_half_up (vx p2)" "y1 = round_half_up (vy p2)"
    and range: "\<bar>xs\<bar> < 2 ^ 49" "\<bar>ys\<bar> < 2 ^ 49" "\<bar>x1\<bar> < 2 ^ 49" "\<bar>y1\<bar> < 2 ^ 49"
  shows "\<exists>pts. drawLine_calls p1 p2 glyph color =
           Some (map (\<lambda>p. linePixel p1 p2 glyph color x1 y1 (fst p) (snd p)) pts) \<and>
         pts \<noteq> [] \<and> hd pts = (xs, ys) \<and> last pts = (x1, y1) \<and>
         successively (walkRel xs ys x1 y1) pts"
proof -
  define dx where "dx = \<bar>x1 - xs\<bar>"
  define dy where "dy = \<bar>y1 - ys\<bar>"
  define sx :: int where "sx = (if xs < x1 then 1 else - 1)"
  define sy :: int where "sy = (if ys < y1 then 1 else - 1)"
  have e1: "dbl (x1 - xs) = x1 - xs" using range by (intro dbl_id) simp
  have e2: "dbl (y1 - ys) = y1 - ys" using range by (intro dbl_id) simp
  have e3: "dbl (dx - dy) = dx - dy" using range unfolding dx_def dy_def by (intro dbl_id) simp
  have inv: "lineInv xs ys x1 y1 (xs, ys, dx - dy)"
    unfolding lineInv_def Let_def fst_conv snd_conv dx_def dy_def
    by (auto simp: algebra_simps)
  from lineLoop_walk [OF dx_def dy_def sx_def sy_def range inv, of p1 p2 glyph color "[]"]
  obtain pts where
    run: "lineLoop p1 p2 glyph color x1 y1 dx dy sx sy (xs, ys, dx - dy) [] =
           Some (map (\<lambda>p. linePixel p1 p2 glyph color x1 y1 (fst p) (snd p)) pts)"
    and rest: "pts \<noteq> []" "hd pts = (xs, ys)" "last pts = (x1, y1)"
      "successively (walkRel xs ys x1 y1) pts"
    by auto
  have "drawLine_calls p1 p2 glyph color =
      lineLoop p1 p2 glyph color x1 y1 dx dy sx sy (xs, ys, dx - dy) []"
    unfolding drawLine_calls_def Let_def r [symmetric] e1 e2 dx_def [symmetric] dy_def [symmetric]
      e3 sx_def [symmetric] sy_def [symmetric] ..
  then show ?thesis using run rest by auto
qed

text \<open>A line from \<open>(1/4, 0)\<close> to \<open>(17/4, 0)\<close>, evaluated.\<close>

lemma round_quarters: "round_half_up (1 / 4) = 0" "round_half_up (17 / 4) = 4" "round_half_up 0 = 0"
    "round_half_up 1 = 1" "round_half_up 2 = 2"
  by (simp_all add: round_half_up_def)



subsection \<open>Termination\<close>

lemma dbl_stuck_numeral: "dbl 9007199254740993 = 9007199254740992"
  by (simp add: dbl_def Let_def bitlen.simps)

lemma stuck_step:
  "lineStep 2 0 1 (- 1) (9007199254740992, 0, 2) = (9007199254740992, 0, 2)"
  by (simp add: lineStep_def Let_def dbl_id dbl_stuck_numeral)

lemma stuck_loop:
  "lineLoop p1 p2 glyph color 9007199254740994 0 2 0 1 (- 1) (9007199254740992, 0, 2) acc = None"
proof (cases "lineLoop p1 p2 glyph color 9007199254740994 0 2 0 1 (- 1) (9007199254740992, 0, 2) acc")
  case None
  then show ?thesis .
next
  case (Some r)
  let ?stuck = "\<lambda>(p1 :: real vec3) (p2 :: real vec3) (glyph :: string) (color :: rgb)
      (x1 :: int) (y1 :: int) (dx :: int) (dy :: int) (sx :: int) (sy :: int) (s :: int \<times> int \<times> int)
      (calls :: pixelCall list) (r :: pixelCall list).
      \<not> (x1 = 9007199254740994 \<and> y1 = 0 \<and> dx = 2 \<and> dy = 0 \<and> sx = 1 \<and> sy = - 1 \<and>
         s = (9007199254740992, 0, 2))"
  have "?stuck p1 p2 glyph color 9007199254740994 0 2 0 1 (- 1) (9007199254740992, 0, 2) acc r"
  proof (rule lineLoop.raw_induct [where P = ?stuck, OF _ Some])
    fix f p1 p2 glyph color x1 y1 dx dy sx sy s calls r
    assume IH: "\<And>p1 p2 glyph color x1 y1 dx dy sx sy s calls r.
        f p1 p2 glyph color x1 y1 dx dy sx sy s calls = Some r \<Longrightarrow>
        ?stuck p1 p2 glyph color x1 y1 dx dy sx sy s calls r"
      and body: "(let calls' = calls @ [linePixel p1 p2 glyph color x1 y1 (fst s) (fst (snd s))]
          in if fst s = x1 \<and> fst (snd s) = y1 then Some calls'
             else f p1 p2 glyph color x1 y1 dx dy sx sy (lineStep dx dy sx sy s) calls') = Some r"
    show "?stuck p1 p2 glyph color x1 y1 dx dy sx sy s calls r"
    proof
      assume a: "x1 = 9007199254740994 \<and> y1 = 0 \<and> dx = 2 \<and> dy = 0 \<and> sx = 1 \<and> sy = - 1 \<and>
         s = (9007199254740992, 0, 2)"
      with body have "f p1 p2 glyph color x1 y1 dx dy sx sy s
          (calls @ [linePixel p1 p2 glyph color x1 y1 (fst s) (fst (snd s))]) = Some r"
        by (simp add: Let_def stuck_step)
      from IH [OF this] a show False by blast
    qed
  qed
  then show ?thesis by simp
qed

text \<open>
  Termination, for claim C9, fails for large finite coordinates: from \<open>x = 2^53\<close> to
  \<open>x = 2^53 + 2\<close> on the row \<open>y = 0\<close> the step \<open>x0 += sx\<close> yields \<open>2^53 + 1\<close>, which no double
  holds and which rounds back to \<open>2^53\<close>; the state of the loop repeats and the loop
  never reaches its \<open>break\<close>.
\<close>

theorem drawLine_stuck_counterexample:
  "drawLine_calls (vec3_create 9007199254740992 0 0) (vec3_create 9007199254740994 0 0) ''#''
      \<lparr>rgb_r = 255, rgb_g = 0, rgb_b = 0\<rparr> = None \<and>
   drawLine 80 24 (vec3_create 9007199254740992 0 0) (vec3_create 9007199254740994 0 0) ''#''
      \<lparr>rgb_r = 255, rgb_g = 0, rgb_b = 0\<rparr> (freshBuffers 80 24) = None"
proof -
  have r: "round_half_up 9007199254740992 = 9007199254740992"
      "round_half_up 9007199254740994 = 9007199254740994" "round_half_up 0 = 0"
    by (simp_all add: round_half_up_def)
  have "drawLine_calls (vec3_create 9007199254740992 0 0) (vec3_create 9007199254740994 0 0) ''#''
      \<lparr>rgb_r = 255, rgb_g = 0, rgb_b = 0\<rparr> = None"
    by (simp add: drawLine_calls_def vec3_create_def Let_def r dbl_id stuck_loop)
  then show ?thesis by (simp add: drawLine_def)
qed

text \<open>
  Claim C9, for coordinates in the range of exact integer arithmetic.  When the four
  rounded coordinates are below \<open>2^49\<close> in magnitude, \<open>drawLine\<close> terminates: its calls
  are the pixels of a list of stepped points that starts at the rounded first end point,
  ends at the rounded second end point, and on which every iteration strictly decreases
  the remaining grid distance to that end point.
\<close>

theorem drawLine_terminates_in_range:
  "\<bar>round_half_up (vx p1)\<bar> < 2 ^ 49 \<Longrightarrow> \<bar>round_half_up (vy p1)\<bar> < 2 ^ 49 \<Longrightarrow>
   \<bar>round_half_up (vx p2)\<bar> < 2 ^ 49 \<Longrightarrow> \<bar>round_half_up (vy p2)\<bar> < 2 ^ 49 \<Longrightarrow>
   \<exists>pts. drawLine_calls p1 p2 glyph color =
           Some (map (\<lambda>p. linePixel p1 p2 glyph color (round_half_up (vx p2)) (round_half_up (vy p2))
                         (fst p) (snd p)) pts) \<and>
         drawLine W H p1 p2 glyph color bufs =
           Some (runCalls W H
             (map (\<lambda>p. linePixel p1 p2 glyph color (round_half_up (vx p2)) (round_half_up (vy p2))
                         (fst p) (snd p)) pts) bufs) \<and>
         pts \<noteq> [] \<and>
         hd pts = (round_half_up (vx p1), round_half_up (vy p1)) \<and>
         last pts = (round_half_up (vx p2), round_half_up (vy p2)) \<and>
         successively (\<lambda>a b. gridDist (round_half_up (vx p2)) (round_half_up (vy p2)) b
                            < gridDist (round_half_up (vx p2)) (round_half_up (vy p2)) a) pts"
proof -
  assume range: "\<bar>round_half_up (vx p1)\<bar> < 2 ^ 49" "\<bar>round_half_up (vy p1)\<bar> < 2 ^ 49"
    "\<bar>round_half_up (vx p2)\<bar> < 2 ^ 49" "\<bar>round_half_up (vy p2)\<bar> < 2 ^ 49"
  let ?x1 = "round_half_up (vx p2)" and ?y1 = "round_half_up (vy p2)"
  let ?px = "\<lambda>p. linePixel p1 p2 glyph color ?x1 ?y1 (fst p) (snd p)"
  from drawLine_calls_walk [OF refl refl refl refl range, of glyph color]
  obtain pts where
    run: "drawLine_calls p1 p2 glyph color = Some (map ?px pts)"
    and rest: "pts \<noteq> []" "hd pts = (round_half_up (vx p1), round_half_up (vy p1))"
      "last pts = (?x1, ?y1)"
    and su: "successively (walkRel (round_half_up (vx p1)) (round_half_up (vy p1)) ?x1 ?y1) pts"
    by blast
  have dec: "successively (\<lambda>a b. gridDist ?x1 ?y1 b < gridDist ?x1 ?y1 a) pts"
    using su by (rule successively_mono) (simp add: walkRel_def Let_def)
  have "drawLine W H p1 p2 glyph color bufs = Some (runCalls W H (map ?px pts) bufs)"
    by (simp add: drawLine_def run)
  then show ?thesis using run rest dec by blast
qed

theorem drawLine_terminates_in_range_witness:
  "\<bar>round_half_up (vx (vec3_create (1 / 4) 0 0))\<bar> < 2 ^ 49 \<and>
   \<bar>round_half_up (vy (vec3_create (1 / 4) 0 0))\<bar> < 2 ^ 49 \<and>
   \<bar>round_half_up (vx (vec3_create (17 / 4) 0 1))\<bar> < 2 ^ 49 \<and>
   \<bar>round_half_up (vy (vec3_create (17 / 4) 0 1))\<bar> < 2 ^ 49 \<and>
   (\<exists>pts. drawLine_calls (vec3_create (1 / 4) 0 0) (vec3_create (17 / 4) 0 1) ''#''
             \<lparr>rgb_r = 255, rgb_g = 0, rgb_b = 0\<rparr> =
           Some (map (\<lambda>p. linePixel (vec3_create (1 / 4) 0 0) (vec3_create (17 / 4) 0 1) ''#''
                         \<lparr>rgb_r = 255, rgb_g = 0, rgb_b = 0\<rparr> 4 0 (fst p) (snd p)) pts) \<and>
         pts \<noteq> [] \<and> hd pts = (0, 0) \<and> last pts = (4, 0) \<and>
         successively (\<lambda>a b. gridDist 4 0 b < gridDist 4 0 a) pts)"
proof -
  let ?p1 = "vec3_create (1 / 4) 0 0" and ?p2 = "vec3_create (17 / 4) 0 1"
  have h: "\<bar>round_half_up (vx ?p1)\<bar> < 2 ^ 49" "\<bar>round_half_up (vy ?p1)\<bar> < 2 ^ 49"
      "\<bar>round_half_up (vx ?p2)\<bar> < 2 ^ 49" "\<bar>round_half_up (vy ?p2)\<bar> < 2 ^ 49"
    by (simp_all add: vec3_create_def round_quarters)
  have r: "round_half_up (vx ?p1) = 0" "round_half_up (vy ?p1) = 0"
      "round_half_up (vx ?p2) = 4" "round_half_up (vy ?p2) = 0"
    by (simp_all add: vec3_create_def round_quarters)
  from drawLine_terminates_in_range [OF h, of "''#''" "\<lparr>rgb_r = 255, rgb_g = 0, rgb_b = 0\<rparr>" 80 24
      "freshBuffers 80 24"]
  have "\<exists>pts. drawLine_calls ?p1 ?p2 ''#'' \<lparr>rgb_r = 255, rgb_g = 0, rgb_b = 0\<rparr> =
           Some (map (\<lambda>p. linePixel ?p1 ?p2 ''#'' \<lparr>rgb_r = 255, rgb_g = 0, rgb_b = 0\<rparr> 4 0
                         (fst p) (snd p)) pts) \<and>
         pts \<noteq> [] \<and> hd pts = (0, 0) \<and> last pts = (4, 0) \<and>
         successively (\<lambda>a b. gridDist 4 0 b < gridDist 4 0 a) pts"
    unfolding r by blast
  then show ?thesis using h by blast
qed

subsection \<open>Depth along the walk\<close>












end
